theory Spec2Isabelle
  imports Main "HOL-Library.Word"
begin

unbundle bit_operations_syntax

section \<open>Bytes, strings and the helpers of the base library\<close>

text \<open>
  The file under verification is \<^verbatim>\<open>src/lib-dcrypt/dcrypt-openssl.c\<close>. An
  \<^verbatim>\<open>unsigned char\<close> is an 8-bit word, a \<^verbatim>\<open>buffer_t\<close> is the list of its
  used bytes, and a C string is the list of its characters before the terminating NUL.
\<close>

type_synonym byte = "8 word"
type_synonym buffer = "byte list"

definition TAB :: char where
  "TAB = CHR 0x09"

definition str_bytes :: "string \<Rightarrow> buffer" where
  \<comment> \<open>the bytes of a C string, as \<^verbatim>\<open>str_append\<close> puts them into a buffer\<close>
  "str_bytes s = map (\<lambda>c. of_char c) s"

fun split_at :: "char \<Rightarrow> string \<Rightarrow> string list" where
  "split_at c [] = [[]]"
| "split_at c (x # xs) =
     (if x = c then [] # split_at c xs
      else (case split_at c xs of
              [] \<Rightarrow> [[x]]
            | f # fs \<Rightarrow> (x # f) # fs))"

definition t_strsplit_tab :: "string \<Rightarrow> string list" where
  \<comment> \<open>Modelled from the spec: \<^verbatim>\<open>t_strsplit_tab\<close> (lib/strfuncs.c) is not among the
      sources. "Fields are separated by a single TAB (0x09)": the string is cut at every
      TAB, empty fields are kept, and the empty string has no field at all.\<close>
  "t_strsplit_tab data = (if data = [] then [] else split_at TAB data)"

fun strstr :: "string \<Rightarrow> string \<Rightarrow> bool" where
  \<comment> \<open>\<^verbatim>\<open>strstr(haystack, needle) != NULL\<close> of the C library\<close>
  "strstr [] needle = (needle = [])"
| "strstr (c # cs) needle =
     (if take (length needle) (c # cs) = needle then True else strstr cs needle)"

section \<open>The key-string inspector\<close>

datatype dcrypt_key_format = DCRYPT_FORMAT_PEM | DCRYPT_FORMAT_DOVECOT

datatype dcrypt_key_version =
  DCRYPT_KEY_VERSION_1 | DCRYPT_KEY_VERSION_2 | DCRYPT_KEY_VERSION_NA

datatype dcrypt_key_kind = DCRYPT_KEY_KIND_PUBLIC | DCRYPT_KEY_KIND_PRIVATE

datatype dcrypt_key_encryption_type =
  DCRYPT_KEY_ENCRYPTION_TYPE_NONE
| DCRYPT_KEY_ENCRYPTION_TYPE_KEY
| DCRYPT_KEY_ENCRYPTION_TYPE_PASSWORD

text \<open>
  The functions of the file return \<^verbatim>\<open>FALSE\<close> and leave a message in
  \<^verbatim>\<open>*error_r\<close>. The model returns the message as a value: one constructor for each
  message of the file, \<open>OpenSSL_error\<close> for the diagnostic that
  \<^verbatim>\<open>dcrypt_openssl_error\<close> takes from the toolkit's error queue. The error kinds of the
  specification are these messages: \<open>CorruptedData\<close> is "Corrupted data",
  \<open>WrongDecryptionKey\<close> is "No private key available", \<open>KeyIdMismatch\<close> is
  "Key id mismatch after load", \<open>AuthenticationFailed\<close> is "data authentication failed",
  \<open>UnknownCurve\<close> is "Unknown EC curve", \<open>InvalidCipher\<close> is "Invalid cipher" and
  "Invalid digest", \<open>BackendError\<close> is \<open>OpenSSL_error\<close>. \<open>Error_unset\<close> is a return of
  \<^verbatim>\<open>FALSE\<close> that leaves \<^verbatim>\<open>*error_r\<close> as it was. The caller's \<^verbatim>\<open>error_r\<close> is taken to
  be non-NULL throughout.
\<close>

datatype error =
  NULL_key_passed
| Unknown_invalid_PEM_key_type
| Unknown_key_format
| Invalid_dovecot_v1_encoding
| Invalid_dovecot_v2_encoding
| Corrupted_data
| Invalid_key_data
| Unsupported_key_version
| No_private_key_available
| Key_id_mismatch_after_load
| Data_authentication_failed
| Invalid_cipher string
| Invalid_digest string
| Unknown_cipher string
| Unknown_EC_curve string
| Key_type_not_supported_in_this_build
| Only_ECC_key_can_be_used
| Unsupported_encryption_key
| Unsupported_key_type
| Object_identifier_too_long
| Invalid_private_key
| Key_is_NULL
| OpenSSL_error
| Error_unset

record key_info =
  format :: dcrypt_key_format
  version :: dcrypt_key_version
  kind :: dcrypt_key_kind
  encryption_type :: dcrypt_key_encryption_type
  encryption_key_hash :: "string option"
  key_hash :: "string option"

definition pem_key_info :: "string \<Rightarrow> error + key_info" where
  \<comment> \<open>the PEM branch of \<^verbatim>\<open>dcrypt_openssl_key_string_get_info\<close>\<close>
  "pem_key_info key_data =
     (let enc = (if strstr key_data ''ENCRYPTED''
                 then DCRYPT_KEY_ENCRYPTION_TYPE_PASSWORD
                 else DCRYPT_KEY_ENCRYPTION_TYPE_NONE)
      in if strstr key_data ''----- BEGIN PRIVATE KEY''
         then Inr \<lparr>format = DCRYPT_FORMAT_PEM, version = DCRYPT_KEY_VERSION_NA,
                   kind = DCRYPT_KEY_KIND_PRIVATE, encryption_type = enc,
                   encryption_key_hash = None, key_hash = None\<rparr>
         else if strstr key_data ''----- BEGIN PUBLIC KEY''
         then Inr \<lparr>format = DCRYPT_FORMAT_PEM, version = DCRYPT_KEY_VERSION_NA,
                   kind = DCRYPT_KEY_KIND_PUBLIC, encryption_type = enc,
                   encryption_key_hash = None, key_hash = None\<rparr>
         else Inl Unknown_invalid_PEM_key_type)"

definition dovecot_key_info :: "string list \<Rightarrow> error + key_info" where
  \<comment> \<open>the tab-split branch, from \<^verbatim>\<open>nfields\<close> on. The locals start as
      \<^verbatim>\<open>version = DCRYPT_KEY_VERSION_NA\<close>, \<^verbatim>\<open>kind = DCRYPT_KEY_KIND_PUBLIC\<close>,
      \<^verbatim>\<open>encryption_type = DCRYPT_KEY_ENCRYPTION_TYPE_NONE\<close>; both version branches
      assign \<^verbatim>\<open>DCRYPT_KEY_VERSION_1\<close>, and no branch follows them.\<close>
  "dovecot_key_info input =
     (let nfields = length input;
          info = \<lparr>format = DCRYPT_FORMAT_DOVECOT, version = DCRYPT_KEY_VERSION_NA,
                   kind = DCRYPT_KEY_KIND_PUBLIC,
                   encryption_type = DCRYPT_KEY_ENCRYPTION_TYPE_NONE,
                   encryption_key_hash = None,
                   key_hash = Some (input ! (nfields - 1))\<rparr>
      in if nfields < 2 then Inl Unknown_key_format
         else if input ! 0 = ''1'' then
           (if nfields = 3 then
              Inr (info\<lparr>version := DCRYPT_KEY_VERSION_1, kind := DCRYPT_KEY_KIND_PUBLIC\<rparr>)
            else if nfields = 5 \<and> input ! 2 = ''0'' then
              Inr (info\<lparr>version := DCRYPT_KEY_VERSION_1, kind := DCRYPT_KEY_KIND_PRIVATE,
                         encryption_type := DCRYPT_KEY_ENCRYPTION_TYPE_NONE\<rparr>)
            else if nfields = 6 \<and> input ! 2 = ''2'' then
              Inr (info\<lparr>version := DCRYPT_KEY_VERSION_1, kind := DCRYPT_KEY_KIND_PRIVATE,
                         encryption_type := DCRYPT_KEY_ENCRYPTION_TYPE_PASSWORD\<rparr>)
            else if nfields = 11 \<and> input ! 2 = ''1'' then
              Inr (info\<lparr>version := DCRYPT_KEY_VERSION_1, kind := DCRYPT_KEY_KIND_PRIVATE,
                         encryption_type := DCRYPT_KEY_ENCRYPTION_TYPE_KEY,
                         encryption_key_hash := Some (input ! (nfields - 2))\<rparr>)
            else Inl Invalid_dovecot_v1_encoding)
         else if input ! 0 = ''2'' then
           (if nfields = 2 then
              Inr (info\<lparr>version := DCRYPT_KEY_VERSION_1, kind := DCRYPT_KEY_KIND_PUBLIC\<rparr>)
            else if nfields = 5 \<and> input ! 2 = ''0'' then
              Inr (info\<lparr>version := DCRYPT_KEY_VERSION_1, kind := DCRYPT_KEY_KIND_PRIVATE,
                         encryption_type := DCRYPT_KEY_ENCRYPTION_TYPE_NONE\<rparr>)
            else if nfields = 9 \<and> input ! 2 = ''2'' then
              Inr (info\<lparr>version := DCRYPT_KEY_VERSION_1, kind := DCRYPT_KEY_KIND_PRIVATE,
                         encryption_type := DCRYPT_KEY_ENCRYPTION_TYPE_PASSWORD\<rparr>)
            else if nfields = 11 \<and> input ! 2 = ''1'' then
              Inr (info\<lparr>version := DCRYPT_KEY_VERSION_1, kind := DCRYPT_KEY_KIND_PRIVATE,
                         encryption_type := DCRYPT_KEY_ENCRYPTION_TYPE_KEY,
                         encryption_key_hash := Some (input ! (nfields - 2))\<rparr>)
            else Inl Invalid_dovecot_v2_encoding)
         else Inr info)"

definition dcrypt_openssl_key_string_get_info :: "string option \<Rightarrow> error + key_info" where
  \<comment> \<open>every out-pointer of the caller is taken to be non-NULL, so that all six results
      are observed; a NULL \<^verbatim>\<open>key_data\<close> is \<open>None\<close>\<close>
  "dcrypt_openssl_key_string_get_info key_data =
     (case key_data of
        None \<Rightarrow> Inl NULL_key_passed
      | Some s \<Rightarrow>
          if strstr s ''----- BEGIN '' then pem_key_info s
          else dovecot_key_info (t_strsplit_tab s))"

section \<open>The symmetric cipher context\<close>

text \<open>
  The toolkit (OpenSSL) is a parameter of the model. An \<^verbatim>\<open>EVP_CIPHER\<close> is known by its
  three lengths; the state of an \<^verbatim>\<open>EVP_CIPHER_CTX\<close> is the type variable \<open>'e\<close>, and
  every toolkit call returns its \<^verbatim>\<open>int\<close> status with what it wrote.
\<close>

record EVP_CIPHER =
  cipher_nid :: int
  EVP_CIPHER_key_length :: nat
  EVP_CIPHER_iv_length :: nat
  EVP_CIPHER_block_size :: nat

record 'e evp_cipher_api =
  EVP_get_cipherbyname :: "string \<Rightarrow> EVP_CIPHER option"
  EVP_CIPHER_CTX_new :: "'e option"
  EVP_CipherInit_ex :: "'e \<Rightarrow> EVP_CIPHER \<Rightarrow> buffer \<Rightarrow> buffer \<Rightarrow> int \<Rightarrow> int \<times> 'e"
  EVP_CIPHER_CTX_set_padding :: "'e \<Rightarrow> int \<Rightarrow> 'e"
  EVP_CipherUpdate_aad :: "'e \<Rightarrow> buffer \<Rightarrow> int \<times> 'e"
  EVP_CipherUpdate :: "'e \<Rightarrow> buffer \<Rightarrow> int \<times> buffer \<times> 'e"
  EVP_CTRL_GCM_SET_TAG :: "'e \<Rightarrow> buffer \<Rightarrow> int \<times> 'e"
  EVP_CipherFinal_ex :: "'e \<Rightarrow> int \<times> buffer \<times> 'e"
  EVP_CTRL_GCM_GET_TAG :: "'e \<Rightarrow> nat \<Rightarrow> int \<times> buffer"

text \<open>
  A function of the file returns \<^verbatim>\<open>TRUE\<close>, or \<^verbatim>\<open>FALSE\<close> with a message. A failed
  \<^verbatim>\<open>i_assert\<close> and an allocation of zero bytes stop the process: such a call has no
  result, which is \<open>None\<close> in the model.
\<close>

datatype ret = TRUE | FALSE error

definition p_malloc :: "nat \<Rightarrow> buffer option" where
  \<comment> \<open>Modelled from the spec: the pool allocator (lib/mempool) is not among the sources.
      It returns zeroed memory and panics when asked for zero bytes, which the file's own
      comments rely on ("allow empty aad", "unlike aad, tag cannot be empty").\<close>
  "p_malloc n = (if n = 0 then None else Some (replicate n 0))"

definition memcpy :: "buffer \<Rightarrow> buffer \<Rightarrow> nat \<Rightarrow> buffer" where
  \<comment> \<open>\<^verbatim>\<open>memcpy(dst, src, n)\<close> with \<open>n\<close> at most the length of both\<close>
  "memcpy dst src n = take n src @ drop n dst"

record 'e dcrypt_context_symmetric =
  cipher :: EVP_CIPHER
  ctx :: "'e option"
  key :: "buffer option"
  iv :: "buffer option"
  aad :: "buffer option"
  tag :: "buffer option"
  padding :: int
  mode :: int

text \<open>
  The fields \<^verbatim>\<open>aad_len\<close> and \<^verbatim>\<open>tag_len\<close> are the lengths of the lists \<open>aad\<close> and
  \<open>tag\<close>: the getters append exactly that many bytes of the arrays.
\<close>

datatype dcrypt_sym_mode = DCRYPT_MODE_ENCRYPT | DCRYPT_MODE_DECRYPT

definition dcrypt_openssl_ctx_sym_create ::
  "'e evp_cipher_api \<Rightarrow> string \<Rightarrow> dcrypt_sym_mode \<Rightarrow> error + 'e dcrypt_context_symmetric"
where
  "dcrypt_openssl_ctx_sym_create tk algorithm m =
     (case EVP_get_cipherbyname tk algorithm of
        None \<Rightarrow> Inl (Invalid_cipher algorithm)
      | Some c \<Rightarrow>
          Inr \<lparr>cipher = c, ctx = None, key = None, iv = None, aad = None, tag = None,
                padding = 1, mode = (if m = DCRYPT_MODE_ENCRYPT then 1 else 0)\<rparr>)"

definition dcrypt_openssl_ctx_sym_set_key ::
  "'e dcrypt_context_symmetric \<Rightarrow> buffer \<Rightarrow> 'e dcrypt_context_symmetric option"
where
  "dcrypt_openssl_ctx_sym_set_key c k =
     (case p_malloc (EVP_CIPHER_key_length (cipher c)) of
        None \<Rightarrow> None
      | Some m \<Rightarrow>
          Some (c\<lparr>key := Some (memcpy m k (min (length k) (EVP_CIPHER_key_length (cipher c))))\<rparr>))"

definition dcrypt_openssl_ctx_sym_set_iv ::
  "'e dcrypt_context_symmetric \<Rightarrow> buffer \<Rightarrow> 'e dcrypt_context_symmetric option"
where
  "dcrypt_openssl_ctx_sym_set_iv c v =
     (case p_malloc (EVP_CIPHER_iv_length (cipher c)) of
        None \<Rightarrow> None
      | Some m \<Rightarrow>
          Some (c\<lparr>iv := Some (memcpy m v (min (length v) (EVP_CIPHER_iv_length (cipher c))))\<rparr>))"

definition random_fill :: "(nat \<Rightarrow> byte) \<Rightarrow> nat \<Rightarrow> buffer \<times> (nat \<Rightarrow> byte)" where
  \<comment> \<open>the process-wide random source is a stream of bytes; \<^verbatim>\<open>random_fill\<close> takes the
      next \<open>n\<close> of them\<close>
  "random_fill rnd n = (map rnd [0..<n], (\<lambda>i. rnd (i + n)))"

definition dcrypt_openssl_ctx_sym_set_key_iv_random ::
  "'e dcrypt_context_symmetric \<Rightarrow> (nat \<Rightarrow> byte) \<Rightarrow> 'e dcrypt_context_symmetric option"
where
  "dcrypt_openssl_ctx_sym_set_key_iv_random c rnd =
     (case p_malloc (EVP_CIPHER_key_length (cipher c)) of
        None \<Rightarrow> None
      | Some _ \<Rightarrow>
          (case random_fill rnd (EVP_CIPHER_key_length (cipher c)) of
             (k, rnd') \<Rightarrow>
               (case p_malloc (EVP_CIPHER_iv_length (cipher c)) of
                  None \<Rightarrow> None
                | Some _ \<Rightarrow>
                    Some (c\<lparr>key := Some k,
                            iv := Some (fst (random_fill rnd' (EVP_CIPHER_iv_length (cipher c))))\<rparr>))))"

definition dcrypt_openssl_ctx_sym_set_padding ::
  "'e dcrypt_context_symmetric \<Rightarrow> bool \<Rightarrow> 'e dcrypt_context_symmetric"
where
  "dcrypt_openssl_ctx_sym_set_padding c p = c\<lparr>padding := (if p then 1 else 0)\<rparr>"

definition dcrypt_openssl_ctx_sym_get_key ::
  "'e dcrypt_context_symmetric \<Rightarrow> buffer \<Rightarrow> bool \<times> buffer"
where
  "dcrypt_openssl_ctx_sym_get_key c buf =
     (case key c of
        None \<Rightarrow> (False, buf)
      | Some k \<Rightarrow> (True, buf @ take (EVP_CIPHER_key_length (cipher c)) k))"

definition dcrypt_openssl_ctx_sym_get_iv ::
  "'e dcrypt_context_symmetric \<Rightarrow> buffer \<Rightarrow> bool \<times> buffer"
where
  "dcrypt_openssl_ctx_sym_get_iv c buf =
     (case iv c of
        None \<Rightarrow> (False, buf)
      | Some v \<Rightarrow> (True, buf @ take (EVP_CIPHER_iv_length (cipher c)) v))"

definition dcrypt_openssl_ctx_sym_set_aad ::
  "'e dcrypt_context_symmetric \<Rightarrow> buffer \<Rightarrow> 'e dcrypt_context_symmetric option"
where
  \<comment> \<open>\<^verbatim>\<open>p_malloc(pool, I_MAX(1, aad_len))\<close> never asks for zero bytes\<close>
  "dcrypt_openssl_ctx_sym_set_aad c a =
     (case p_malloc (max 1 (length a)) of
        None \<Rightarrow> None
      | Some m \<Rightarrow> Some (c\<lparr>aad := Some (take (length a) (memcpy m a (length a)))\<rparr>))"

definition dcrypt_openssl_ctx_sym_get_aad ::
  "'e dcrypt_context_symmetric \<Rightarrow> buffer \<Rightarrow> bool \<times> buffer"
where
  "dcrypt_openssl_ctx_sym_get_aad c buf =
     (case aad c of
        None \<Rightarrow> (False, buf)
      | Some a \<Rightarrow> (True, buf @ a))"

definition dcrypt_openssl_ctx_sym_set_tag ::
  "'e dcrypt_context_symmetric \<Rightarrow> buffer \<Rightarrow> 'e dcrypt_context_symmetric option"
where
  "dcrypt_openssl_ctx_sym_set_tag c t =
     (case p_malloc (length t) of
        None \<Rightarrow> None
      | Some m \<Rightarrow> Some (c\<lparr>tag := Some (memcpy m t (length t))\<rparr>))"

definition dcrypt_openssl_ctx_sym_get_tag ::
  "'e dcrypt_context_symmetric \<Rightarrow> buffer \<Rightarrow> bool \<times> buffer"
where
  "dcrypt_openssl_ctx_sym_get_tag c buf =
     (case tag c of
        None \<Rightarrow> (False, buf)
      | Some t \<Rightarrow> (True, buf @ t))"

definition dcrypt_openssl_ctx_sym_get_key_length :: "'e dcrypt_context_symmetric \<Rightarrow> nat" where
  "dcrypt_openssl_ctx_sym_get_key_length c = EVP_CIPHER_iv_length (cipher c)"

definition dcrypt_openssl_ctx_sym_get_iv_length :: "'e dcrypt_context_symmetric \<Rightarrow> nat" where
  "dcrypt_openssl_ctx_sym_get_iv_length c = EVP_CIPHER_iv_length (cipher c)"

definition dcrypt_openssl_ctx_sym_get_block_size :: "'e dcrypt_context_symmetric \<Rightarrow> nat" where
  "dcrypt_openssl_ctx_sym_get_block_size c = EVP_CIPHER_block_size (cipher c)"

definition dcrypt_openssl_ctx_sym_init ::
  "'e evp_cipher_api \<Rightarrow> 'e dcrypt_context_symmetric \<Rightarrow> (ret \<times> 'e dcrypt_context_symmetric) option"
where
  "dcrypt_openssl_ctx_sym_init tk c =
     (case (key c, iv c, ctx c) of
        (Some k, Some v, None) \<Rightarrow>
          (case EVP_CIPHER_CTX_new tk of
             None \<Rightarrow> Some (FALSE OpenSSL_error, c)
           | Some e0 \<Rightarrow>
               (case EVP_CipherInit_ex tk e0 (cipher c) k v (mode c) of
                  (ec, e1) \<Rightarrow>
                    if ec \<noteq> 1 then Some (FALSE OpenSSL_error, c\<lparr>ctx := Some e1\<rparr>)
                    else
                      (let e2 = EVP_CIPHER_CTX_set_padding tk e1 (padding c) in
                       case aad c of
                         None \<Rightarrow> Some (TRUE, c\<lparr>ctx := Some e2\<rparr>)
                       | Some a \<Rightarrow>
                           (case EVP_CipherUpdate_aad tk e2 a of
                              (ec', e3) \<Rightarrow>
                                if ec' \<noteq> 1 then Some (FALSE OpenSSL_error, c\<lparr>ctx := Some e3\<rparr>)
                                else Some (TRUE, c\<lparr>ctx := Some e3\<rparr>)))))
      | _ \<Rightarrow> None)"

definition buffer_append_space_unsafe :: "buffer \<Rightarrow> nat \<Rightarrow> buffer \<Rightarrow> buffer" where
  \<comment> \<open>the buffer grown by \<open>n\<close> bytes into which the toolkit wrote \<open>out\<close>; the bytes it
      did not write are the zeroes of fresh buffer memory\<close>
  "buffer_append_space_unsafe result n out = result @ take n (out @ replicate n 0)"

definition dcrypt_openssl_ctx_sym_update ::
  "'e evp_cipher_api \<Rightarrow> 'e dcrypt_context_symmetric \<Rightarrow> buffer \<Rightarrow> buffer
     \<Rightarrow> (ret \<times> 'e dcrypt_context_symmetric \<times> buffer) option"
where
  "dcrypt_openssl_ctx_sym_update tk c data result =
     (case ctx c of
        None \<Rightarrow> None
      | Some e \<Rightarrow>
          (case EVP_CipherUpdate tk e data of
             (ec, out, e') \<Rightarrow>
               if ec \<noteq> 1 then
                 Some (FALSE OpenSSL_error, c\<lparr>ctx := Some e'\<rparr>,
                       buffer_append_space_unsafe result
                         (length data + EVP_CIPHER_block_size (cipher c)) out)
               else Some (TRUE, c\<lparr>ctx := Some e'\<rparr>, result @ out)))"

definition EVP_GCM_TLS_TAG_LEN :: nat where
  "EVP_GCM_TLS_TAG_LEN = 16"

definition final_ret :: "int \<Rightarrow> ret" where
  \<comment> \<open>the end of \<^verbatim>\<open>dcrypt_openssl_ctx_sym_final\<close>: \<^verbatim>\<open>ec == 0\<close> is
      "data authentication failed", \<^verbatim>\<open>ec < 0\<close> is the toolkit's error, and the call
      returns \<^verbatim>\<open>ec == 1\<close>\<close>
  "final_ret ec =
     (if ec = 0 then FALSE Data_authentication_failed
      else if ec < 0 then FALSE OpenSSL_error
      else if ec = 1 then TRUE
      else FALSE Error_unset)"

definition dcrypt_openssl_ctx_sym_final ::
  "'e evp_cipher_api \<Rightarrow> 'e dcrypt_context_symmetric \<Rightarrow> buffer
     \<Rightarrow> (ret \<times> 'e dcrypt_context_symmetric \<times> buffer) option"
where
  "dcrypt_openssl_ctx_sym_final tk c result =
     (case ctx c of
        None \<Rightarrow> None
      | Some e \<Rightarrow>
          (let block_size = EVP_CIPHER_block_size (cipher c);
               set_tag = (case tag c of
                            None \<Rightarrow> (1, e)
                          | Some t \<Rightarrow> if mode c = 0 then EVP_CTRL_GCM_SET_TAG tk e t else (1, e));
               fin = (if fst set_tag = 1 then EVP_CipherFinal_ex tk (snd set_tag)
                      else (fst set_tag, [], snd set_tag));
               ec = fst fin;
               out = fst (snd fin);
               e' = snd (snd fin)
           in if ec = 1 then
                (if mode c = 1 \<and> aad c \<noteq> None then
                   (case tag c of
                      Some _ \<Rightarrow> None
                    | None \<Rightarrow>
                        (case EVP_CTRL_GCM_GET_TAG tk e' EVP_GCM_TLS_TAG_LEN of
                           (ec', t) \<Rightarrow>
                             Some (final_ret ec',
                                   c\<lparr>tag := Some (take EVP_GCM_TLS_TAG_LEN
                                                     (t @ replicate EVP_GCM_TLS_TAG_LEN 0)),
                                     ctx := None\<rparr>,
                                   result @ out)))
                 else Some (TRUE, c\<lparr>ctx := None\<rparr>, result @ out))
              else Some (final_ret ec, c\<lparr>ctx := None\<rparr>,
                         buffer_append_space_unsafe result block_size out)))"

subsection \<open>Sequences of calls on one context\<close>

text \<open>
  A caller drives a context by a sequence of calls. \<open>sym_step\<close> is one call (the output
  buffers of \<^verbatim>\<open>update\<close> and \<^verbatim>\<open>final\<close> start empty and are dropped, the status of
  \<^verbatim>\<open>init\<close>, \<^verbatim>\<open>update\<close> and \<^verbatim>\<open>final\<close> is ignored, as a caller may), \<open>sym_run\<close> is
  the sequence; it has no result when one of the calls stops the process.
\<close>

datatype sym_op =
  Set_key buffer
| Set_iv buffer
| Set_key_iv_random "nat \<Rightarrow> byte"
| Set_padding bool
| Set_aad buffer
| Set_tag buffer
| Init
| Update buffer
| Final

fun sym_step ::
  "'e evp_cipher_api \<Rightarrow> sym_op \<Rightarrow> 'e dcrypt_context_symmetric \<Rightarrow> 'e dcrypt_context_symmetric option"
where
  "sym_step tk (Set_key k) c = dcrypt_openssl_ctx_sym_set_key c k"
| "sym_step tk (Set_iv v) c = dcrypt_openssl_ctx_sym_set_iv c v"
| "sym_step tk (Set_key_iv_random rnd) c = dcrypt_openssl_ctx_sym_set_key_iv_random c rnd"
| "sym_step tk (Set_padding p) c = Some (dcrypt_openssl_ctx_sym_set_padding c p)"
| "sym_step tk (Set_aad a) c = dcrypt_openssl_ctx_sym_set_aad c a"
| "sym_step tk (Set_tag t) c = dcrypt_openssl_ctx_sym_set_tag c t"
| "sym_step tk Init c = map_option snd (dcrypt_openssl_ctx_sym_init tk c)"
| "sym_step tk (Update d) c = map_option (\<lambda>r. fst (snd r)) (dcrypt_openssl_ctx_sym_update tk c d [])"
| "sym_step tk Final c = map_option (\<lambda>r. fst (snd r)) (dcrypt_openssl_ctx_sym_final tk c [])"

fun sym_run ::
  "'e evp_cipher_api \<Rightarrow> sym_op list \<Rightarrow> 'e dcrypt_context_symmetric
     \<Rightarrow> 'e dcrypt_context_symmetric option"
where
  "sym_run tk [] c = Some c"
| "sym_run tk (x # xs) c =
     (case sym_step tk x c of None \<Rightarrow> None | Some c' \<Rightarrow> sym_run tk xs c')"

text \<open>
  What the calls made so far have set, read off the sequence alone: the value a getter
  is expected to append, or \<open>None\<close> while nothing has set it. A key or IV is stored at the
  cipher's length, cut or filled with zero bytes.
\<close>

definition fit :: "nat \<Rightarrow> buffer \<Rightarrow> buffer" where
  "fit n k = take n k @ replicate (n - length k) 0"

fun set_key_value :: "EVP_CIPHER \<Rightarrow> buffer option \<Rightarrow> sym_op \<Rightarrow> buffer option" where
  "set_key_value ci old (Set_key k) = Some (fit (EVP_CIPHER_key_length ci) k)"
| "set_key_value ci old (Set_key_iv_random rnd) =
     Some (map rnd [0..<EVP_CIPHER_key_length ci])"
| "set_key_value ci old _ = old"

fun set_iv_value :: "EVP_CIPHER \<Rightarrow> buffer option \<Rightarrow> sym_op \<Rightarrow> buffer option" where
  "set_iv_value ci old (Set_iv v) = Some (fit (EVP_CIPHER_iv_length ci) v)"
| "set_iv_value ci old (Set_key_iv_random rnd) =
     Some (map rnd [EVP_CIPHER_key_length ci..<EVP_CIPHER_key_length ci + EVP_CIPHER_iv_length ci])"
| "set_iv_value ci old _ = old"

fun set_aad_value :: "buffer option \<Rightarrow> sym_op \<Rightarrow> buffer option" where
  "set_aad_value old (Set_aad a) = Some a"
| "set_aad_value old _ = old"

fun set_tag_value :: "buffer option \<Rightarrow> sym_op \<Rightarrow> buffer option" where
  "set_tag_value old (Set_tag t) = Some t"
| "set_tag_value old _ = old"

definition got :: "buffer \<Rightarrow> buffer option \<Rightarrow> bool \<times> buffer" where
  \<comment> \<open>a getter's answer for an expected value: false and the buffer as it was, or true and
      the value appended\<close>
  "got buf v = (case v of None \<Rightarrow> (False, buf) | Some x \<Rightarrow> (True, buf @ x))"

section \<open>Digests and PBKDF2\<close>

record EVP_MD =
  md_nid :: int
  EVP_MD_size :: nat

record evp_digest_api =
  EVP_get_digestbyname :: "string \<Rightarrow> EVP_MD option"
  PKCS5_PBKDF2_HMAC :: "buffer \<Rightarrow> buffer \<Rightarrow> nat \<Rightarrow> EVP_MD \<Rightarrow> nat \<Rightarrow> int \<times> buffer"
  EVP_Digest :: "EVP_MD \<Rightarrow> buffer \<Rightarrow> buffer option"
  SHA256 :: "buffer \<Rightarrow> buffer"

text \<open>
  \<open>EVP_Digest\<close> stands for \<^verbatim>\<open>EVP_DigestInit_ex\<close>, \<^verbatim>\<open>EVP_DigestUpdate\<close> and
  \<^verbatim>\<open>EVP_DigestFinal_ex\<close> in a row: the digest, or \<open>None\<close> when one of them fails.
\<close>

definition dcrypt_openssl_pbkdf2 ::
  "evp_digest_api \<Rightarrow> buffer \<Rightarrow> buffer \<Rightarrow> string \<Rightarrow> nat \<Rightarrow> buffer \<Rightarrow> nat
     \<Rightarrow> (ret \<times> buffer) option"
where
  "dcrypt_openssl_pbkdf2 dg password salt hash rounds result result_len =
     (if rounds = 0 then None
      else if result_len = 0 then None
      else
        (case EVP_get_digestbyname dg hash of
           None \<Rightarrow> Some (FALSE (Invalid_digest hash), result)
         | Some md \<Rightarrow>
             (case PKCS5_PBKDF2_HMAC dg password salt rounds md result_len of
                (r, buffer) \<Rightarrow>
                  if r = 1 then Some (TRUE, result @ take result_len buffer)
                  else Some (FALSE OpenSSL_error, result))))"

section \<open>Ciphering a private key (v2)\<close>

definition dcrypt_openssl_cipher_key_dovecot_v2 ::
  "'e evp_cipher_api \<Rightarrow> evp_digest_api \<Rightarrow> string \<Rightarrow> dcrypt_sym_mode \<Rightarrow> buffer \<Rightarrow> buffer
     \<Rightarrow> buffer \<Rightarrow> string \<Rightarrow> nat \<Rightarrow> buffer \<Rightarrow> (ret \<times> buffer) option"
where
  "dcrypt_openssl_cipher_key_dovecot_v2 tk dg cipher_name m input secret salt digalgo rounds result_r =
     (case dcrypt_openssl_ctx_sym_create tk cipher_name m of
        Inl e \<Rightarrow> Some (FALSE e, result_r)
      | Inr dctx \<Rightarrow>
          (case dcrypt_openssl_pbkdf2 dg secret salt digalgo rounds []
                  (dcrypt_openssl_ctx_sym_get_key_length dctx
                   + dcrypt_openssl_ctx_sym_get_iv_length dctx) of
             None \<Rightarrow> None
           | Some (FALSE e, _) \<Rightarrow> Some (FALSE e, result_r)
           | Some (TRUE, kd) \<Rightarrow>
               (case dcrypt_openssl_ctx_sym_set_key dctx
                       (take (dcrypt_openssl_ctx_sym_get_key_length dctx) kd) of
                  None \<Rightarrow> None
                | Some dctx1 \<Rightarrow>
               (case dcrypt_openssl_ctx_sym_set_iv dctx1
                       (take (dcrypt_openssl_ctx_sym_get_iv_length dctx1)
                          (drop (dcrypt_openssl_ctx_sym_get_key_length dctx1) kd)) of
                  None \<Rightarrow> None
                | Some dctx2 \<Rightarrow>
               (case dcrypt_openssl_ctx_sym_init tk dctx2 of
                  None \<Rightarrow> None
                | Some (FALSE e, _) \<Rightarrow> Some (FALSE e, result_r)
                | Some (TRUE, dctx3) \<Rightarrow>
               (case dcrypt_openssl_ctx_sym_update tk dctx3 input [] of
                  None \<Rightarrow> None
                | Some (FALSE e, _, _) \<Rightarrow> Some (FALSE e, result_r)
                | Some (TRUE, dctx4, tmp) \<Rightarrow>
               (case dcrypt_openssl_ctx_sym_final tk dctx4 tmp of
                  None \<Rightarrow> None
                | Some (FALSE e, _, _) \<Rightarrow> Some (FALSE e, result_r)
                | Some (TRUE, _, tmp') \<Rightarrow> Some (TRUE, result_r @ tmp'))))))))"

section \<open>A toolkit to run the model on\<close>

text \<open>
  Concrete evaluations need a toolkit. This one knows two ciphers and two digests by
  their real lengths, and is built so that what it was given shows in what it returns:
  its context is the key, the IV, the direction and the expected tag; its cipher copies
  the data, and its final block is the key followed by the IV; in decryption its final
  call verifies that the expected tag is sixteen bytes \<open>0xAA\<close>; the PBKDF2 output counts
  upwards from the digest size.
\<close>

definition aes_256_ctr :: EVP_CIPHER where
  "aes_256_ctr = \<lparr>cipher_nid = 906, EVP_CIPHER_key_length = 32, EVP_CIPHER_iv_length = 16,
                   EVP_CIPHER_block_size = 1\<rparr>"

definition aes_256_gcm :: EVP_CIPHER where
  "aes_256_gcm = \<lparr>cipher_nid = 901, EVP_CIPHER_key_length = 32, EVP_CIPHER_iv_length = 12,
                   EVP_CIPHER_block_size = 1\<rparr>"

record probe_ctx =
  p_key :: buffer
  p_iv :: buffer
  p_enc :: int
  p_tag :: buffer

definition probe_cipher_api :: "probe_ctx evp_cipher_api" where
  "probe_cipher_api =
     \<lparr>EVP_get_cipherbyname =
        (\<lambda>n. if n = ''aes-256-ctr'' then Some aes_256_ctr
              else if n = ''aes-256-gcm'' then Some aes_256_gcm else None),
      EVP_CIPHER_CTX_new = Some \<lparr>p_key = [], p_iv = [], p_enc = 0, p_tag = []\<rparr>,
      EVP_CipherInit_ex = (\<lambda>e ci k v enc. (1, e\<lparr>p_key := k, p_iv := v, p_enc := enc\<rparr>)),
      EVP_CIPHER_CTX_set_padding = (\<lambda>e p. e),
      EVP_CipherUpdate_aad = (\<lambda>e a. (1, e)),
      EVP_CipherUpdate = (\<lambda>e d. (1, d, e)),
      EVP_CTRL_GCM_SET_TAG = (\<lambda>e t. (if length t \<le> 16 then 1 else 0, e\<lparr>p_tag := t\<rparr>)),
      EVP_CipherFinal_ex =
        (\<lambda>e. if p_enc e = 0 \<and> p_tag e \<noteq> [] \<and> p_tag e \<noteq> replicate 16 0xAA then (0, [], e)
             else (1, p_key e @ p_iv e, e)),
      EVP_CTRL_GCM_GET_TAG = (\<lambda>e n. (1, replicate n 0xAA))\<rparr>"

definition sha1_md :: EVP_MD where
  "sha1_md = \<lparr>md_nid = 64, EVP_MD_size = 20\<rparr>"

definition sha256_md :: EVP_MD where
  "sha256_md = \<lparr>md_nid = 672, EVP_MD_size = 32\<rparr>"

definition probe_digest_api :: evp_digest_api where
  "probe_digest_api =
     \<lparr>EVP_get_digestbyname =
        (\<lambda>n. if n = ''sha1'' then Some sha1_md
              else if n = ''sha256'' then Some sha256_md else None),
      PKCS5_PBKDF2_HMAC =
        (\<lambda>pw salt rounds md n. (1, map (\<lambda>i. of_nat (EVP_MD_size md + i)) [0..<n])),
      EVP_Digest = (\<lambda>md d. Some (take (EVP_MD_size md) (d @ replicate (EVP_MD_size md) 0))),
      SHA256 = (\<lambda>d. take 32 (d @ replicate 32 0))\<rparr>"

definition gcm_tag_check :: "'e evp_cipher_api \<Rightarrow> 'e \<Rightarrow> buffer \<Rightarrow> int" where
  \<comment> \<open>the toolkit's verdict on an expected tag \<open>t\<close> in decryption: the tag is handed over
      (\<^verbatim>\<open>EVP_CTRL_GCM_SET_TAG\<close>) and, when the toolkit takes it, checked by
      \<^verbatim>\<open>EVP_CipherFinal_ex\<close>. 1 is "verified", 0 is "not verified", a negative value is
      a failure of the toolkit itself.\<close>
  "gcm_tag_check tk e t =
     (case EVP_CTRL_GCM_SET_TAG tk e t of
        (ec, e') \<Rightarrow> if ec = 1 then fst (EVP_CipherFinal_ex tk e') else ec)"

definition probe_sym_ctx :: "int \<Rightarrow> buffer option \<Rightarrow> probe_ctx dcrypt_context_symmetric" where
  \<comment> \<open>the context on this toolkit after \<^verbatim>\<open>create\<close> for aes-256-gcm in direction \<open>enc\<close>,
      \<^verbatim>\<open>set_key\<close>, \<^verbatim>\<open>set_iv\<close>, \<^verbatim>\<open>set_aad\<close>, \<^verbatim>\<open>set_tag\<close> when a tag is given, and
      \<^verbatim>\<open>init\<close>\<close>
  "probe_sym_ctx enc t =
     \<lparr>cipher = aes_256_gcm,
      ctx = Some \<lparr>p_key = replicate 32 1, p_iv = replicate 12 2, p_enc = enc, p_tag = []\<rparr>,
      key = Some (replicate 32 1), iv = Some (replicate 12 2), aad = Some [7], tag = t,
      padding = 1, mode = enc\<rparr>"

section \<open>Hexadecimal text and decimal numbers\<close>

definition hex_digit :: "nat \<Rightarrow> char" where
  "hex_digit v = (if v < 10 then char_of (v + 48) else char_of (v - 10 + 97))"

fun binary_to_hex :: "buffer \<Rightarrow> string" where
  \<comment> \<open>Modelled from the spec: \<^verbatim>\<open>binary_to_hex\<close> (lib/hex-binary.c) is not among the sources.
      "Hex is lowercase, no separators": two digits for each byte, the high nibble first.\<close>
  "binary_to_hex [] = []"
| "binary_to_hex (b # bs) =
     hex_digit (unat (drop_bit 4 b)) # hex_digit (unat (b AND 0x0f)) # binary_to_hex bs"

definition hex_value :: "char \<Rightarrow> nat option" where
  "hex_value c =
     (let n = of_char c :: nat
      in if 48 \<le> n \<and> n \<le> 57 then Some (n - 48)
         else if 97 \<le> n \<and> n \<le> 102 then Some (n - 97 + 10)
         else if 65 \<le> n \<and> n \<le> 70 then Some (n - 65 + 10)
         else None)"

fun hex_to_binary :: "string \<Rightarrow> int \<times> buffer" where
  \<comment> \<open>Modelled from the spec: \<^verbatim>\<open>hex_to_binary\<close> (lib/hex-binary.c) is not among the sources.
      It reads two hex digits for each byte, in either case, and returns 0 at the end of the
      text and -1 at the first character that is no digit (also at a lone last digit); the
      bytes decoded before that stay in the buffer.\<close>
  "hex_to_binary [] = (0, [])"
| "hex_to_binary [c] = (-1, [])"
| "hex_to_binary (c # d # cs) =
     (case hex_value c of
        None \<Rightarrow> (-1, [])
      | Some h \<Rightarrow>
          (case hex_value d of
             None \<Rightarrow> (-1, [])
           | Some l \<Rightarrow>
               (case hex_to_binary cs of
                  (r, bs) \<Rightarrow> (r, of_nat (h * 16 + l) # bs))))"

definition digit_value :: "char \<Rightarrow> nat option" where
  "digit_value c =
     (let n = of_char c :: nat in if 48 \<le> n \<and> n \<le> 57 then Some (n - 48) else None)"

fun digits_value :: "nat \<Rightarrow> string \<Rightarrow> nat option" where
  "digits_value acc [] = Some acc"
| "digits_value acc (c # cs) =
     (case digit_value c of None \<Rightarrow> None | Some d \<Rightarrow> digits_value (acc * 10 + d) cs)"

definition str_to_uint :: "string \<Rightarrow> nat option" where
  \<comment> \<open>Modelled from the spec: \<^verbatim>\<open>str_to_uint\<close> (lib/strnum.c) is not among the sources.
      "Integers in decimal, unsigned": one digit or more and nothing else, of a value that
      fits \<^verbatim>\<open>unsigned int\<close>; \<open>None\<close> is the return value -1.\<close>
  "str_to_uint s =
     (if s = [] then None
      else (case digits_value 0 s of
              None \<Rightarrow> None
            | Some n \<Rightarrow> if int n < 4294967296 then Some n else None))"

definition str_to_int :: "string \<Rightarrow> int option" where
  \<comment> \<open>Modelled from the spec: \<^verbatim>\<open>str_to_int\<close> (lib/strnum.c) is not among the sources.
      Decimal digits after an optional minus sign, of a value that fits \<^verbatim>\<open>int\<close>.\<close>
  "str_to_int s =
     (case s of
        [] \<Rightarrow> None
      | c # cs \<Rightarrow>
          if c = CHR ''-'' then
            (if cs = [] then None
             else (case digits_value 0 cs of
                     None \<Rightarrow> None
                   | Some n \<Rightarrow> if int n \<le> 2147483648 then Some (- int n) else None))
          else
            (case digits_value 0 s of
               None \<Rightarrow> None
             | Some n \<Rightarrow> if int n < 2147483648 then Some (int n) else None))"

fun dec_digits :: "nat \<Rightarrow> nat \<Rightarrow> string" where
  \<comment> \<open>the decimal digits of \<open>n\<close>; the first argument bounds their number\<close>
  "dec_digits 0 n = []"
| "dec_digits (Suc f) n =
     (if n < 10 then [char_of (n + 48)]
      else dec_digits f (n div 10) @ [char_of (n mod 10 + 48)])"

definition printf_d :: "nat \<Rightarrow> string" where
  \<comment> \<open>\<^verbatim>\<open>%d\<close> of \<^verbatim>\<open>t_strdup_printf\<close>, for a number that is not negative\<close>
  "printf_d n = dec_digits (Suc n) n"

definition lcase_char :: "char \<Rightarrow> char" where
  "lcase_char c =
     (let n = of_char c :: nat in if 65 \<le> n \<and> n \<le> 90 then char_of (n + 32) else c)"

definition t_str_lcase :: "string \<Rightarrow> string" where
  \<comment> \<open>Modelled from the spec: \<^verbatim>\<open>t_str_lcase\<close> (lib/strfuncs.c) is not among the sources; it is
      the text with its ASCII capitals in lower case ("standard names ... e.g. aes-256-ctr").\<close>
  "t_str_lcase s = map lcase_char s"

definition strncasecmp_eq :: "string \<Rightarrow> string \<Rightarrow> nat \<Rightarrow> bool" where
  \<comment> \<open>\<^verbatim>\<open>strncasecmp(a, b, n) == 0\<close> of the C library\<close>
  "strncasecmp_eq a b n = (map lcase_char (take n a) = map lcase_char (take n b))"

section \<open>Keys and the toolkit's key functions\<close>

text \<open>
  A \<^verbatim>\<open>struct dcrypt_private_key *\<close> and a \<^verbatim>\<open>struct dcrypt_public_key *\<close> are both an
  \<^verbatim>\<open>EVP_PKEY *\<close> under a cast. An \<^verbatim>\<open>EVP_PKEY\<close> holds an RSA key, an EC key or a key of
  another type (of which the file only reads the type id). The RSA structure and the EC
  point are the toolkit's (type variables \<open>'rsa\<close> and \<open>'pt\<close>); a \<^verbatim>\<open>BIGNUM\<close> is an integer.
\<close>

datatype point_conversion_form =
  POINT_CONVERSION_COMPRESSED | POINT_CONVERSION_UNCOMPRESSED | POINT_CONVERSION_HYBRID

record 'pt EC_KEY =
  curve_name :: int
  private_key :: "int option"
  public_key :: "'pt option"
  conv_form :: point_conversion_form
  asn1_flag :: int

datatype ('rsa, 'pt) EVP_PKEY =
  PKEY_RSA 'rsa
| PKEY_EC "'pt EC_KEY"
| PKEY_OTHER int

definition EVP_PKEY_RSA :: int where "EVP_PKEY_RSA = 6"
definition EVP_PKEY_EC :: int where "EVP_PKEY_EC = 408"
definition NID_undef :: int where "NID_undef = 0"
definition OPENSSL_EC_NAMED_CURVE :: int where "OPENSSL_EC_NAMED_CURVE = 1"

fun EVP_PKEY_id :: "('rsa, 'pt) EVP_PKEY \<Rightarrow> int" where
  \<comment> \<open>the type id that \<^verbatim>\<open>EVP_PKEY_set1_RSA\<close>, \<^verbatim>\<open>EVP_PKEY_set1_EC_KEY\<close> and key generation
      give a key\<close>
  "EVP_PKEY_id (PKEY_RSA _) = EVP_PKEY_RSA"
| "EVP_PKEY_id (PKEY_EC _) = EVP_PKEY_EC"
| "EVP_PKEY_id (PKEY_OTHER t) = t"

record obj_api =
  OBJ_sn2nid :: "string \<Rightarrow> int"
  OBJ_txt2nid :: "string \<Rightarrow> int"
  OBJ_nid2txt :: "int \<Rightarrow> string"
  EVP_PKEY_type :: "int \<Rightarrow> int"

text \<open>
  \<open>OBJ_nid2txt nid\<close> is the whole numeric text of \<^verbatim>\<open>OBJ_nid2obj(nid)\<close>, whose length
  \<^verbatim>\<open>OBJ_obj2txt(buf, buf_len, obj, 1)\<close> returns and of which it writes at most
  \<^verbatim>\<open>buf_len - 1\<close> characters; it is empty where \<^verbatim>\<open>OBJ_obj2txt\<close> returns 0.
\<close>

record bn_api =
  BN_bn2mpi :: "int \<Rightarrow> buffer"
  BN_mpi2bn :: "buffer \<Rightarrow> int option"
  BN_hex2bn :: "string \<Rightarrow> int option"
  BN_bin2bn :: "buffer \<Rightarrow> int option"

record 'rsa rsa_api =
  rsa_keygen :: "nat \<Rightarrow> 'rsa option"
  i2d_RSAPrivateKey :: "'rsa \<Rightarrow> buffer option"
  d2i_RSAPrivateKey :: "buffer \<Rightarrow> 'rsa option"
  RSA_check_key :: "'rsa \<Rightarrow> int"
  RSAPublicKey_dup :: "'rsa \<Rightarrow> 'rsa"

record 'pt ec_api =
  ec_keygen :: "int \<Rightarrow> 'pt EC_KEY option"
  EC_KEY_new_by_curve_name :: "int \<Rightarrow> bool"
  EC_POINT_mul :: "int \<Rightarrow> int \<Rightarrow> int \<times> 'pt"
  EC_KEY_check_key :: "'pt EC_KEY \<Rightarrow> int"
  EC_POINT_point2hex :: "int \<Rightarrow> 'pt \<Rightarrow> string"
  EC_POINT_oct2point :: "int \<Rightarrow> buffer \<Rightarrow> 'pt option"
  EC_POINT_point2oct :: "int \<Rightarrow> 'pt \<Rightarrow> buffer"

record ('rsa, 'pt) pkey_api =
  i2d_PUBKEY :: "('rsa, 'pt) EVP_PKEY \<Rightarrow> buffer option"
  EVP_PKEY_derive :: "'pt EC_KEY \<Rightarrow> 'pt EC_KEY \<Rightarrow> buffer option"
  EVP_PKEY_encrypt :: "('rsa, 'pt) EVP_PKEY \<Rightarrow> buffer \<Rightarrow> buffer option"
  EVP_PKEY_decrypt :: "('rsa, 'pt) EVP_PKEY \<Rightarrow> buffer \<Rightarrow> buffer option"

text \<open>
  \<open>rsa_keygen\<close> and \<open>ec_keygen\<close> are the key that \<^verbatim>\<open>EVP_PKEY_keygen\<close> makes in the run
  at hand (for the bit length, or on the curve of the NID), \<open>None\<close> when a step of the
  generation fails. \<open>EVP_PKEY_derive local peer\<close> is the ECDH secret (context, peer and
  derivation in a row), \<open>EVP_PKEY_encrypt\<close> and \<open>EVP_PKEY_decrypt\<close> are RSA-OAEP.
\<close>

record ('e, 'rsa, 'pt) openssl =
  ciphers :: "'e evp_cipher_api"
  digests :: evp_digest_api
  objs :: obj_api
  bns :: bn_api
  rsas :: "'rsa rsa_api"
  ecs :: "'pt ec_api"
  pkeys :: "('rsa, 'pt) pkey_api"

section \<open>Public side and key identifier\<close>

definition EVP_PKEY_base_id :: "obj_api \<Rightarrow> ('rsa, 'pt) EVP_PKEY \<Rightarrow> int" where
  "EVP_PKEY_base_id ob k = EVP_PKEY_type ob (EVP_PKEY_id k)"

definition dcrypt_openssl_private_to_public_key ::
  "('e, 'rsa, 'pt) openssl \<Rightarrow> ('rsa, 'pt) EVP_PKEY option
     \<Rightarrow> (error + ('rsa, 'pt) EVP_PKEY) option"
where
  \<comment> \<open>a NULL \<^verbatim>\<open>priv_key\<close> is dereferenced by \<^verbatim>\<open>EVP_PKEY_base_id\<close>: the call has no result.
      The EC key of the public handle is the private handle's own \<^verbatim>\<open>EC_KEY\<close> (a second
      reference), with the named-curve flag set.\<close>
  "dcrypt_openssl_private_to_public_key ossl priv_key =
     (case priv_key of
        None \<Rightarrow> None
      | Some pkey \<Rightarrow>
          if EVP_PKEY_base_id (objs ossl) pkey = EVP_PKEY_RSA then
            (case pkey of
               PKEY_RSA r \<Rightarrow> Some (Inr (PKEY_RSA (RSAPublicKey_dup (rsas ossl) r)))
             | _ \<Rightarrow> None)
          else if EVP_PKEY_base_id (objs ossl) pkey = EVP_PKEY_EC then
            (case pkey of
               PKEY_EC eck \<Rightarrow> Some (Inr (PKEY_EC (eck\<lparr>asn1_flag := OPENSSL_EC_NAMED_CURVE\<rparr>)))
             | _ \<Rightarrow> None)
          else Some (Inl Invalid_private_key))"

definition set_conv_form_compressed :: "('rsa, 'pt) EVP_PKEY \<Rightarrow> ('rsa, 'pt) EVP_PKEY" where
  \<comment> \<open>\<^verbatim>\<open>EC_KEY_set_conv_form(EVP_PKEY_get0_EC_KEY(pub), POINT_CONVERSION_COMPRESSED)\<close>\<close>
  "set_conv_form_compressed k =
     (case k of
        PKEY_EC eck \<Rightarrow> PKEY_EC (eck\<lparr>conv_form := POINT_CONVERSION_COMPRESSED\<rparr>)
      | _ \<Rightarrow> k)"

definition dcrypt_openssl_public_key_id ::
  "('e, 'rsa, 'pt) openssl \<Rightarrow> ('rsa, 'pt) EVP_PKEY option \<Rightarrow> string \<Rightarrow> buffer
     \<Rightarrow> (ret \<times> buffer) option"
where
  \<comment> \<open>when the digest calls fail, \<^verbatim>\<open>ec = dcrypt_openssl_error(error_r)\<close> is \<^verbatim>\<open>FALSE\<close>,
      that is 0, and the function returns \<^verbatim>\<open>ec == 0\<close>: true, with nothing appended\<close>
  "dcrypt_openssl_public_key_id ossl key_p algorithm result =
     (case EVP_get_digestbyname (digests ossl) algorithm of
        None \<Rightarrow> Some (FALSE (Unknown_cipher algorithm), result)
      | Some md \<Rightarrow>
          (case key_p of
             None \<Rightarrow> Some (FALSE Key_is_NULL, result)
           | Some pub \<Rightarrow>
               (let pub' = (if EVP_PKEY_base_id (objs ossl) pub = EVP_PKEY_EC
                            then set_conv_form_compressed pub else pub)
                in case i2d_PUBKEY (pkeys ossl) pub' of
                     None \<Rightarrow> Some (FALSE OpenSSL_error, result)
                   | Some der \<Rightarrow>
                       (case EVP_Digest (digests ossl) md der of
                          None \<Rightarrow> Some (TRUE, result)
                        | Some h \<Rightarrow> Some (TRUE, result @ h)))))"

section \<open>Key generation\<close>

datatype dcrypt_key_type = DCRYPT_KEY_RSA | DCRYPT_KEY_EC

record ('rsa, 'pt) dcrypt_keypair =
  pub :: "('rsa, 'pt) EVP_PKEY"
  priv :: "('rsa, 'pt) EVP_PKEY"

definition dcrypt_openssl_generate_ec_key ::
  "('e, 'rsa, 'pt) openssl \<Rightarrow> int \<Rightarrow> bool \<times> ('rsa, 'pt) EVP_PKEY option"
where
  \<comment> \<open>\<^verbatim>\<open>TRUE\<close> with the key, flagged as named curve and compressed, or \<^verbatim>\<open>FALSE\<close> with
      \<^verbatim>\<open>*key\<close> as it was (NULL at both call sites)\<close>
  "dcrypt_openssl_generate_ec_key ossl nid =
     (case ec_keygen (ecs ossl) nid of
        None \<Rightarrow> (False, None)
      | Some eck \<Rightarrow>
          (True, Some (PKEY_EC (eck\<lparr>asn1_flag := OPENSSL_EC_NAMED_CURVE,
                                     conv_form := POINT_CONVERSION_COMPRESSED\<rparr>))))"

definition dcrypt_openssl_generate_rsa_key ::
  "('e, 'rsa, 'pt) openssl \<Rightarrow> nat \<Rightarrow> bool \<times> ('rsa, 'pt) EVP_PKEY option"
where
  "dcrypt_openssl_generate_rsa_key ossl bits =
     (case rsa_keygen (rsas ossl) bits of
        None \<Rightarrow> (False, None)
      | Some r \<Rightarrow> (True, Some (PKEY_RSA r)))"

definition keypair_of ::
  "('e, 'rsa, 'pt) openssl \<Rightarrow> ('rsa, 'pt) EVP_PKEY option
     \<Rightarrow> (error + ('rsa, 'pt) dcrypt_keypair) option"
where
  \<comment> \<open>\<^verbatim>\<open>pair_r->priv = pkey; return dcrypt_openssl_private_to_public_key(pair_r->priv,
      &(pair_r->pub), error_r);\<close>\<close>
  "keypair_of ossl pkey =
     (case dcrypt_openssl_private_to_public_key ossl pkey of
        None \<Rightarrow> None
      | Some (Inl e) \<Rightarrow> Some (Inl e)
      | Some (Inr pk) \<Rightarrow>
          (case pkey of None \<Rightarrow> None | Some k \<Rightarrow> Some (Inr \<lparr>pub = pk, priv = k\<rparr>)))"

definition dcrypt_openssl_generate_keypair ::
  "('e, 'rsa, 'pt) openssl \<Rightarrow> dcrypt_key_type \<Rightarrow> nat \<Rightarrow> string
     \<Rightarrow> (error + ('rsa, 'pt) dcrypt_keypair) option"
where
  \<comment> \<open>the two generators return \<^verbatim>\<open>bool\<close>; the test \<^verbatim>\<open>== 0\<close> takes the branch that builds
      the pair when the generator has failed, and the other branch returns
      \<^verbatim>\<open>dcrypt_openssl_error(error_r)\<close>, which is \<^verbatim>\<open>FALSE\<close>. The last two lines of the
      function ("Key type not supported in this build") are for a kind that is neither
      value of the enum.\<close>
  "dcrypt_openssl_generate_keypair ossl kind' bits curve =
     (case kind' of
        DCRYPT_KEY_RSA \<Rightarrow>
          (case dcrypt_openssl_generate_rsa_key ossl bits of
             (ok, pkey) \<Rightarrow>
               if ok = False then keypair_of ossl pkey else Some (Inl OpenSSL_error))
      | DCRYPT_KEY_EC \<Rightarrow>
          (let nid = OBJ_sn2nid (objs ossl) curve
           in if nid = NID_undef then Some (Inl (Unknown_EC_curve curve))
              else (case dcrypt_openssl_generate_ec_key ossl nid of
                      (ok, pkey) \<Rightarrow>
                        if ok = False then keypair_of ossl pkey
                        else Some (Inl OpenSSL_error))))"

section \<open>Key agreement and RSA wrapping\<close>

definition dcrypt_openssl_ecdh_derive_secret_local ::
  "('e, 'rsa, 'pt) openssl \<Rightarrow> ('rsa, 'pt) EVP_PKEY \<Rightarrow> buffer \<Rightarrow> buffer
     \<Rightarrow> (ret \<times> buffer) option"
where
  \<comment> \<open>\<open>R\<close> is the peer's point, the secret is appended to \<open>S\<close>. A local key that is no EC
      key has no \<^verbatim>\<open>EC_KEY\<close> to take the group from: the call has no result.\<close>
  "dcrypt_openssl_ecdh_derive_secret_local ossl local_key R S =
     (case local_key of
        PKEY_EC lk \<Rightarrow>
          (case EC_POINT_oct2point (ecs ossl) (curve_name lk) R of
             None \<Rightarrow> Some (FALSE OpenSSL_error, S)
           | Some pt \<Rightarrow>
               (let ec_key = \<lparr>curve_name = curve_name lk, private_key = None,
                              public_key = Some pt,
                              conv_form = POINT_CONVERSION_COMPRESSED,
                              asn1_flag = asn1_flag lk\<rparr>
                in if EC_KEY_check_key (ecs ossl) ec_key \<noteq> 1
                   then Some (FALSE OpenSSL_error, S)
                   else (case EVP_PKEY_derive (pkeys ossl) lk ec_key of
                           None \<Rightarrow> Some (FALSE OpenSSL_error, S)
                         | Some buf \<Rightarrow> Some (TRUE, S @ buf))))
      | _ \<Rightarrow> None)"

definition dcrypt_openssl_ecdh_derive_secret_peer ::
  "('e, 'rsa, 'pt) openssl \<Rightarrow> ('rsa, 'pt) EVP_PKEY \<Rightarrow> buffer \<Rightarrow> buffer
     \<Rightarrow> (ret \<times> buffer \<times> buffer) option"
where
  \<comment> \<open>returns the status, \<open>R\<close> with the ephemeral point appended and \<open>S\<close> with the secret
      appended\<close>
  "dcrypt_openssl_ecdh_derive_secret_peer ossl peer_key R S =
     (if EVP_PKEY_base_id (objs ossl) peer_key \<noteq> EVP_PKEY_EC
      then Some (FALSE Only_ECC_key_can_be_used, R, S)
      else
        (case peer_key of
           PKEY_EC pk \<Rightarrow>
             (case dcrypt_openssl_generate_ec_key ossl (curve_name pk) of
                (True, Some (PKEY_EC local)) \<Rightarrow>
                  (case EVP_PKEY_derive (pkeys ossl) local pk of
                     None \<Rightarrow> Some (FALSE OpenSSL_error, R, S)
                   | Some buf \<Rightarrow>
                       (case public_key local of
                          None \<Rightarrow> None
                        | Some pt \<Rightarrow>
                            Some (TRUE,
                                  R @ EC_POINT_point2oct (ecs ossl) (curve_name local) pt,
                                  S @ buf)))
              | (True, _) \<Rightarrow> None
              | (False, _) \<Rightarrow> Some (FALSE OpenSSL_error, R, S))
         | _ \<Rightarrow> None))"

definition dcrypt_openssl_rsa_encrypt ::
  "('e, 'rsa, 'pt) openssl \<Rightarrow> ('rsa, 'pt) EVP_PKEY \<Rightarrow> buffer \<Rightarrow> buffer \<Rightarrow> ret \<times> buffer"
where
  "dcrypt_openssl_rsa_encrypt ossl key_p data result =
     (case EVP_PKEY_encrypt (pkeys ossl) key_p data of
        None \<Rightarrow> (FALSE OpenSSL_error, result)
      | Some buf \<Rightarrow> (TRUE, result @ buf))"

definition dcrypt_openssl_rsa_decrypt ::
  "('e, 'rsa, 'pt) openssl \<Rightarrow> ('rsa, 'pt) EVP_PKEY \<Rightarrow> buffer \<Rightarrow> buffer \<Rightarrow> ret \<times> buffer"
where
  "dcrypt_openssl_rsa_decrypt ossl key_p data result =
     (case EVP_PKEY_decrypt (pkeys ossl) key_p data of
        None \<Rightarrow> (FALSE OpenSSL_error, result)
      | Some buf \<Rightarrow> (TRUE, result @ buf))"

section \<open>Loading a private key, version 1\<close>

definition DCRYPT_DOVECOT_KEY_ENCRYPT_NONE :: int where
  "DCRYPT_DOVECOT_KEY_ENCRYPT_NONE = 0"
definition DCRYPT_DOVECOT_KEY_ENCRYPT_PK :: int where
  "DCRYPT_DOVECOT_KEY_ENCRYPT_PK = 1"
definition DCRYPT_DOVECOT_KEY_ENCRYPT_PASSWORD :: int where
  "DCRYPT_DOVECOT_KEY_ENCRYPT_PASSWORD = 2"

text \<open>
  The three values are those of the file's own format notes
  ("enctype = 0 = none, 1 = ecdhe, 2 = password").
\<close>

definition dcrypt_openssl_decrypt_point_v1 ::
  "('e, 'rsa, 'pt) openssl \<Rightarrow> buffer \<Rightarrow> buffer \<Rightarrow> (error + int) option"
where
  "dcrypt_openssl_decrypt_point_v1 ossl data key_p =
     (case dcrypt_openssl_ctx_sym_create (ciphers ossl) ''aes-256-ctr'' DCRYPT_MODE_DECRYPT of
        Inl e \<Rightarrow> Some (Inl e)
      | Inr dctx \<Rightarrow>
     (case dcrypt_openssl_ctx_sym_set_iv dctx (replicate 16 0) of
        None \<Rightarrow> None
      | Some dctx1 \<Rightarrow>
     (case dcrypt_openssl_ctx_sym_set_key dctx1 key_p of
        None \<Rightarrow> None
      | Some dctx2 \<Rightarrow>
     (case dcrypt_openssl_ctx_sym_init (ciphers ossl) dctx2 of
        None \<Rightarrow> None
      | Some (FALSE e, _) \<Rightarrow> Some (Inl e)
      | Some (TRUE, dctx3) \<Rightarrow>
     (case dcrypt_openssl_ctx_sym_update (ciphers ossl) dctx3 data [] of
        None \<Rightarrow> None
      | Some (FALSE e, _, _) \<Rightarrow> Some (Inl e)
      | Some (TRUE, dctx4, tmp) \<Rightarrow>
     (case dcrypt_openssl_ctx_sym_final (ciphers ossl) dctx4 tmp of
        None \<Rightarrow> None
      | Some (FALSE e, _, _) \<Rightarrow> Some (Inl e)
      | Some (TRUE, _, tmp') \<Rightarrow>
          (case BN_bin2bn (bns ossl) tmp' of
             None \<Rightarrow> Some (Inl OpenSSL_error)
           | Some point \<Rightarrow> Some (Inr point))))))))"

definition dcrypt_openssl_decrypt_point_ec_v1 ::
  "('e, 'rsa, 'pt) openssl \<Rightarrow> ('rsa, 'pt) EVP_PKEY option \<Rightarrow> string \<Rightarrow> string
     \<Rightarrow> (error + int) option"
where
  "dcrypt_openssl_decrypt_point_ec_v1 ossl dec_key data_hex peer_key_hex =
     (case dec_key of
        None \<Rightarrow> None
      | Some dk \<Rightarrow>
          (case dcrypt_openssl_ecdh_derive_secret_local ossl dk
                  (snd (hex_to_binary peer_key_hex)) [] of
             None \<Rightarrow> None
           | Some (FALSE e, _) \<Rightarrow> Some (Inl e)
           | Some (TRUE, secret) \<Rightarrow>
               dcrypt_openssl_decrypt_point_v1 ossl (snd (hex_to_binary data_hex))
                 (SHA256 (digests ossl) secret)))"

definition dcrypt_openssl_decrypt_point_password_v1 ::
  "('e, 'rsa, 'pt) openssl \<Rightarrow> string \<Rightarrow> string option \<Rightarrow> string \<Rightarrow> (error + int) option"
where
  \<comment> \<open>a NULL password is read by \<^verbatim>\<open>hex_to_binary\<close>, and the failure branch of the
      derivation destroys the context \<^verbatim>\<open>dctx\<close>, which was never assigned: neither has a
      result\<close>
  "dcrypt_openssl_decrypt_point_password_v1 ossl data_hex password_hex salt_hex =
     (case password_hex of
        None \<Rightarrow> None
      | Some pw \<Rightarrow>
          (case dcrypt_openssl_pbkdf2 (digests ossl) (snd (hex_to_binary pw))
                  (snd (hex_to_binary salt_hex)) ''sha256'' 16 [] 32 of
             None \<Rightarrow> None
           | Some (FALSE e, _) \<Rightarrow> None
           | Some (TRUE, key_p) \<Rightarrow>
               dcrypt_openssl_decrypt_point_v1 ossl (snd (hex_to_binary data_hex)) key_p))"

definition ec_key_get_pub_point_hex :: "('e, 'rsa, 'pt) openssl \<Rightarrow> 'pt EC_KEY \<Rightarrow> string option" where
  \<comment> \<open>the hex text of the compressed public point; there is none without a public point\<close>
  "ec_key_get_pub_point_hex ossl eckey =
     map_option (EC_POINT_point2hex (ecs ossl) (curve_name eckey)) (public_key eckey)"

definition assign_private_key ::
  "('e, 'rsa, 'pt) openssl \<Rightarrow> int \<Rightarrow> int \<Rightarrow> int \<times> 'pt EC_KEY"
where
  \<comment> \<open>the block "assign private key" of both loaders: the key on the curve with the private
      number, its public point computed by \<^verbatim>\<open>EC_POINT_mul\<close>, whose status is returned\<close>
  "assign_private_key ossl nid point =
     (case EC_POINT_mul (ecs ossl) nid point of
        (ec, pt) \<Rightarrow>
          (ec, \<lparr>curve_name = nid, private_key = Some point, public_key = Some pt,
                conv_form = POINT_CONVERSION_COMPRESSED,
                asn1_flag = OPENSSL_EC_NAMED_CURVE\<rparr>))"

definition v1_point ::
  "('e, 'rsa, 'pt) openssl \<Rightarrow> string list \<Rightarrow> string option \<Rightarrow> ('rsa, 'pt) EVP_PKEY option
     \<Rightarrow> int \<Rightarrow> (error + int) option"
where
  \<comment> \<open>"decode and optionally decipher private key value" of the v1 loader. Field 4 is read
      without a look at the number of fields, of which the caller has checked that there
      are four.\<close>
  "v1_point ossl input password dec_key enctype =
     (if enctype = DCRYPT_DOVECOT_KEY_ENCRYPT_NONE then
        (case BN_hex2bn (bns ossl) (input ! 3) of
           None \<Rightarrow> Some (Inl OpenSSL_error)
         | Some point \<Rightarrow> Some (Inr point))
      else if enctype = DCRYPT_DOVECOT_KEY_ENCRYPT_PASSWORD then
        (if length input < 5 then None
         else dcrypt_openssl_decrypt_point_password_v1 ossl (input ! 3) password (input ! 4))
      else if enctype = DCRYPT_DOVECOT_KEY_ENCRYPT_PK then
        (if length input < 5 then None
         else dcrypt_openssl_decrypt_point_ec_v1 ossl dec_key (input ! 3) (input ! 4))
      else Some (Inl Invalid_key_data))"

definition dcrypt_openssl_load_private_key_dovecot_v1 ::
  "('e, 'rsa, 'pt) openssl \<Rightarrow> string list \<Rightarrow> string option \<Rightarrow> ('rsa, 'pt) EVP_PKEY option
     \<Rightarrow> (error + ('rsa, 'pt) EVP_PKEY) option"
where
  "dcrypt_openssl_load_private_key_dovecot_v1 ossl input password dec_key =
     (case str_to_int (input ! 1) of
        None \<Rightarrow> Some (Inl Corrupted_data)
      | Some nid \<Rightarrow>
     (case str_to_int (input ! 2) of
        None \<Rightarrow> Some (Inl Corrupted_data)
      | Some enctype \<Rightarrow>
          if EC_KEY_new_by_curve_name (ecs ossl) nid = False then Some (Inl OpenSSL_error)
          else
            (case v1_point ossl input password dec_key enctype of
               None \<Rightarrow> None
             | Some (Inl e) \<Rightarrow> Some (Inl e)
             | Some (Inr point) \<Rightarrow>
                 (case assign_private_key ossl nid point of
                    (ec, eckey) \<Rightarrow>
                      if ec = 1 \<and> EC_KEY_check_key (ecs ossl) eckey = 1 then
                        (case ec_key_get_pub_point_hex ossl eckey of
                           None \<Rightarrow> None
                         | Some id_hex \<Rightarrow>
                             if binary_to_hex (SHA256 (digests ossl) (str_bytes id_hex))
                                  \<noteq> input ! (length input - 1)
                             then Some (Inl Key_id_mismatch_after_load)
                             else Some (Inr (PKEY_EC eckey)))
                      else Some (Inl OpenSSL_error)))))"

section \<open>Loading a private key, version 2\<close>

definition v2_check_dec_key ::
  "('e, 'rsa, 'pt) openssl \<Rightarrow> ('rsa, 'pt) EVP_PKEY option \<Rightarrow> string \<Rightarrow> (error + unit) option"
where
  \<comment> \<open>"check that we have correct decryption key": the identifier of the decryption key's
      public side, as hex text, against field 9 of the record\<close>
  "v2_check_dec_key ossl dec_key enc_key_id =
     (case dcrypt_openssl_private_to_public_key ossl dec_key of
        None \<Rightarrow> None
      | Some (Inl e) \<Rightarrow> Some (Inl e)
      | Some (Inr pubkey) \<Rightarrow>
          (case dcrypt_openssl_public_key_id ossl (Some pubkey) ''sha256'' [] of
             None \<Rightarrow> None
           | Some (FALSE e, _) \<Rightarrow> Some (Inl e)
           | Some (TRUE, data) \<Rightarrow>
               if binary_to_hex data \<noteq> enc_key_id then Some (Inl No_private_key_available)
               else Some (Inr ())))"

definition v2_pk_secret ::
  "('e, 'rsa, 'pt) openssl \<Rightarrow> ('rsa, 'pt) EVP_PKEY option \<Rightarrow> buffer \<Rightarrow> (error + buffer) option"
where
  \<comment> \<open>"get us secret value to use for key/iv generation": RSA-OAEP decryption of the peer
      material under an RSA key, ECDH with it otherwise\<close>
  "v2_pk_secret ossl dec_key peer_key =
     (case dec_key of
        None \<Rightarrow> None
      | Some dk \<Rightarrow>
          if EVP_PKEY_base_id (objs ossl) dk = EVP_PKEY_RSA then
            (case dcrypt_openssl_rsa_decrypt ossl dk peer_key [] of
               (FALSE e, _) \<Rightarrow> Some (Inl e)
             | (TRUE, secret) \<Rightarrow> Some (Inr secret))
          else
            (case dcrypt_openssl_ecdh_derive_secret_local ossl dk peer_key [] of
               None \<Rightarrow> None
             | Some (FALSE e, _) \<Rightarrow> Some (Inl e)
             | Some (TRUE, secret) \<Rightarrow> Some (Inr secret)))"

definition v2_key_data ::
  "('e, 'rsa, 'pt) openssl \<Rightarrow> string list \<Rightarrow> string option \<Rightarrow> ('rsa, 'pt) EVP_PKEY option
     \<Rightarrow> int \<Rightarrow> (error + buffer) option"
where
  \<comment> \<open>"decode and possibly decipher private key value". Without encryption a field that is
      no hex text only sets the message: the bytes decoded so far go on as the key data.\<close>
  "v2_key_data ossl input password dec_key enctype =
     (if enctype = DCRYPT_DOVECOT_KEY_ENCRYPT_NONE then
        Some (Inr (snd (hex_to_binary (input ! 3))))
      else if enctype = DCRYPT_DOVECOT_KEY_ENCRYPT_PK then
        (case str_to_uint (input ! 6) of
           None \<Rightarrow> Some (Inl Corrupted_data)
         | Some rounds \<Rightarrow>
             (case v2_check_dec_key ossl dec_key (input ! 9) of
                None \<Rightarrow> None
              | Some (Inl e) \<Rightarrow> Some (Inl e)
              | Some (Inr _) \<Rightarrow>
                  (case v2_pk_secret ossl dec_key (snd (hex_to_binary (input ! 8))) of
                     None \<Rightarrow> None
                   | Some (Inl e) \<Rightarrow> Some (Inl e)
                   | Some (Inr secret) \<Rightarrow>
                       (case dcrypt_openssl_cipher_key_dovecot_v2 (ciphers ossl) (digests ossl)
                               (input ! 3) DCRYPT_MODE_DECRYPT (snd (hex_to_binary (input ! 7)))
                               secret (snd (hex_to_binary (input ! 4))) (input ! 5) rounds [] of
                          None \<Rightarrow> None
                        | Some (FALSE e, _) \<Rightarrow> Some (Inl e)
                        | Some (TRUE, key_data) \<Rightarrow> Some (Inr key_data)))))
      else if enctype = DCRYPT_DOVECOT_KEY_ENCRYPT_PASSWORD then
        (case str_to_uint (input ! 6) of
           None \<Rightarrow> Some (Inl Corrupted_data)
         | Some rounds \<Rightarrow>
             (case password of
                None \<Rightarrow> None
              | Some pw \<Rightarrow>
                  if fst (hex_to_binary (input ! 4)) = 0 \<and> fst (hex_to_binary (input ! 7)) = 0
                  then
                    (case dcrypt_openssl_cipher_key_dovecot_v2 (ciphers ossl) (digests ossl)
                            (input ! 3) DCRYPT_MODE_DECRYPT (snd (hex_to_binary (input ! 7)))
                            (str_bytes pw) (snd (hex_to_binary (input ! 4))) (input ! 5)
                            rounds [] of
                       None \<Rightarrow> None
                     | Some (FALSE e, _) \<Rightarrow> Some (Inl e)
                     | Some (TRUE, key_data) \<Rightarrow> Some (Inr key_data))
                  else Some (Inl Corrupted_data)))
      else Some (Inr []))"

definition v2_decode_key ::
  "('e, 'rsa, 'pt) openssl \<Rightarrow> int \<Rightarrow> buffer \<Rightarrow> error + ('rsa, 'pt) EVP_PKEY"
where
  \<comment> \<open>"decode actual key"\<close>
  "v2_decode_key ossl nid key_data =
     (if EVP_PKEY_type (objs ossl) nid = EVP_PKEY_RSA then
        (case d2i_RSAPrivateKey (rsas ossl) key_data of
           None \<Rightarrow> Inl OpenSSL_error
         | Some rsa \<Rightarrow>
             if RSA_check_key (rsas ossl) rsa \<noteq> 1 then Inl OpenSSL_error
             else Inr (PKEY_RSA rsa))
      else
        (case BN_mpi2bn (bns ossl) key_data of
           None \<Rightarrow> Inl OpenSSL_error
         | Some point \<Rightarrow>
             if EC_KEY_new_by_curve_name (ecs ossl) nid = False then Inl OpenSSL_error
             else
               (case assign_private_key ossl nid point of
                  (ec, eckey) \<Rightarrow>
                    if ec = 1 \<and> EC_KEY_check_key (ecs ossl) eckey = 1 then Inr (PKEY_EC eckey)
                    else Inl OpenSSL_error)))"

definition v2_key_id_hex ::
  "('e, 'rsa, 'pt) openssl \<Rightarrow> ('rsa, 'pt) EVP_PKEY \<Rightarrow> string option"
where
  \<comment> \<open>"finally compare key to key id": the hex text that is compared with the last field.
      The results of the two calls are not looked at; a public key that was not made stays
      NULL, and an identifier that was not made leaves the buffer empty.\<close>
  "v2_key_id_hex ossl key_r =
     (case dcrypt_openssl_private_to_public_key ossl (Some key_r) of
        None \<Rightarrow> None
      | Some r \<Rightarrow>
          (case dcrypt_openssl_public_key_id ossl
                  (case r of Inl _ \<Rightarrow> None | Inr pubkey \<Rightarrow> Some pubkey) ''sha256'' [] of
             None \<Rightarrow> None
           | Some (_, key_data) \<Rightarrow> Some (binary_to_hex key_data)))"

definition dcrypt_openssl_load_private_key_dovecot_v2 ::
  "('e, 'rsa, 'pt) openssl \<Rightarrow> string list \<Rightarrow> string option \<Rightarrow> ('rsa, 'pt) EVP_PKEY option
     \<Rightarrow> (error + ('rsa, 'pt) EVP_PKEY) option"
where
  "dcrypt_openssl_load_private_key_dovecot_v2 ossl input password dec_key =
     (let len = length input in
      case str_to_int (input ! 2) of
        None \<Rightarrow> Some (Inl Corrupted_data)
      | Some enctype \<Rightarrow>
          if enctype < 0 then Some (Inl Corrupted_data)
          else if enctype > 2 then Some (Inl Corrupted_data)
          else if enctype = DCRYPT_DOVECOT_KEY_ENCRYPT_NONE \<and> len \<noteq> 5
            then Some (Inl Corrupted_data)
          else if enctype = DCRYPT_DOVECOT_KEY_ENCRYPT_PASSWORD \<and> len \<noteq> 9
            then Some (Inl Corrupted_data)
          else if enctype = DCRYPT_DOVECOT_KEY_ENCRYPT_PK \<and> len \<noteq> 11
            then Some (Inl Corrupted_data)
          else
            (let nid = OBJ_txt2nid (objs ossl) (input ! 1) in
             if nid = NID_undef then Some (Inl OpenSSL_error)
             else
               (case v2_key_data ossl input password dec_key enctype of
                  None \<Rightarrow> None
                | Some (Inl e) \<Rightarrow> Some (Inl e)
                | Some (Inr key_data) \<Rightarrow>
                    (case v2_decode_key ossl nid key_data of
                       Inl e \<Rightarrow> Some (Inl e)
                     | Inr key_r \<Rightarrow>
                         (case v2_key_id_hex ossl key_r of
                            None \<Rightarrow> None
                          | Some id_hex \<Rightarrow>
                              if id_hex \<noteq> input ! (len - 1)
                              then Some (Inl Key_id_mismatch_after_load)
                              else Some (Inr key_r))))))"

definition dcrypt_openssl_load_private_key_dovecot ::
  "('e, 'rsa, 'pt) openssl \<Rightarrow> string \<Rightarrow> string option \<Rightarrow> ('rsa, 'pt) EVP_PKEY option
     \<Rightarrow> (error + ('rsa, 'pt) EVP_PKEY) option"
where
  \<comment> \<open>\<^verbatim>\<open>*(input[0])\<close> is the first character of the first field\<close>
  "dcrypt_openssl_load_private_key_dovecot ossl data password key_p =
     (let input = t_strsplit_tab data in
      if length input < 4 then Some (Inl Corrupted_data)
      else if take 1 (input ! 0) = ''1'' then
        dcrypt_openssl_load_private_key_dovecot_v1 ossl input password key_p
      else if take 1 (input ! 0) = ''2'' then
        dcrypt_openssl_load_private_key_dovecot_v2 ossl input password key_p
      else Some (Inl Unsupported_key_version))"

section \<open>Storing a private key, version 2\<close>

text \<open>
  The destination is a buffer of text. The macros \<^verbatim>\<open>DCRYPT_DOVECOT_KEY_ENCRYPT_HASH\<close> and
  \<^verbatim>\<open>DCRYPT_DOVECOT_KEY_ENCRYPT_ROUNDS\<close> are not among the sources: they are the parameters
  \<open>enc_hash\<close> and \<open>enc_rounds\<close>. The random source is threaded through the call, and
  \<open>ptr_null\<close> is what the one local variable that is read before it is assigned holds,
  and \<open>error_set\<close> is whether \<^verbatim>\<open>*error_r\<close> holds a message when the function is entered.
\<close>

definition pk_wrap_secret ::
  "('e, 'rsa, 'pt) openssl \<Rightarrow> ('rsa, 'pt) EVP_PKEY \<Rightarrow> (nat \<Rightarrow> byte)
     \<Rightarrow> (error + buffer \<times> buffer) option"
where
  \<comment> \<open>the branch \<^verbatim>\<open>enctype == DCRYPT_DOVECOT_KEY_ENCRYPT_PK\<close> before the ciphering: the peer
      material and the secret\<close>
  "pk_wrap_secret ossl enc_key rnd =
     (if EVP_PKEY_base_id (objs ossl) enc_key = EVP_PKEY_RSA then
        (let secret = fst (random_fill rnd 16) in
         case dcrypt_openssl_rsa_encrypt ossl enc_key secret [] of
           (FALSE e, _) \<Rightarrow> Some (Inl e)
         | (TRUE, peer_key) \<Rightarrow> Some (Inr (peer_key, secret)))
      else if EVP_PKEY_base_id (objs ossl) enc_key = EVP_PKEY_EC then
        (case dcrypt_openssl_ecdh_derive_secret_peer ossl enc_key [] [] of
           None \<Rightarrow> None
         | Some (FALSE e, _, _) \<Rightarrow> Some (Inl e)
         | Some (TRUE, peer_key, secret) \<Rightarrow> Some (Inr (peer_key, secret)))
      else Some (Inl Unsupported_encryption_key))"

definition dcrypt_openssl_encrypt_private_key_dovecot ::
  "('e, 'rsa, 'pt) openssl \<Rightarrow> string \<Rightarrow> nat \<Rightarrow> (nat \<Rightarrow> byte) \<Rightarrow> buffer \<Rightarrow> int \<Rightarrow> string
     \<Rightarrow> string option \<Rightarrow> ('rsa, 'pt) EVP_PKEY option \<Rightarrow> string \<Rightarrow> (ret \<times> string) option"
where
  "dcrypt_openssl_encrypt_private_key_dovecot ossl enc_hash enc_rounds rnd key_p enctype
       cipher_name password enc_key destination =
     (let cipher' = t_str_lcase cipher_name;
          salt = fst (random_fill rnd 8);
          rnd' = snd (random_fill rnd 8);
          dest1 = destination @ cipher' @ [TAB] @ binary_to_hex salt
                  @ [TAB] @ enc_hash @ [TAB] @ printf_d enc_rounds @ [TAB];
          wrapped =
            (if enctype = DCRYPT_DOVECOT_KEY_ENCRYPT_PK then
               (case enc_key of None \<Rightarrow> None | Some ek \<Rightarrow> pk_wrap_secret ossl ek rnd')
             else if enctype = DCRYPT_DOVECOT_KEY_ENCRYPT_PASSWORD then
               (case password of None \<Rightarrow> None | Some pw \<Rightarrow> Some (Inr ([], str_bytes pw)))
             else Some (Inr ([], [])))
      in case wrapped of
           None \<Rightarrow> None
         | Some (Inl e) \<Rightarrow> Some (FALSE e, dest1)
         | Some (Inr (peer_key, secret)) \<Rightarrow>
             (case dcrypt_openssl_cipher_key_dovecot_v2 (ciphers ossl) (digests ossl) cipher'
                     DCRYPT_MODE_ENCRYPT key_p secret salt enc_hash enc_rounds [] of
                None \<Rightarrow> None
              | Some (res, tmp) \<Rightarrow>
                  (let dest2 = dest1 @ binary_to_hex tmp in
                   if enctype = DCRYPT_DOVECOT_KEY_ENCRYPT_PK then
                     (case dcrypt_openssl_public_key_id ossl enc_key ''sha256'' [] of
                        None \<Rightarrow> None
                      | Some (FALSE e, _) \<Rightarrow>
                          Some (FALSE e, dest2 @ [TAB] @ binary_to_hex peer_key @ [TAB])
                      | Some (TRUE, kid) \<Rightarrow>
                          Some (res, dest2 @ [TAB] @ binary_to_hex peer_key @ [TAB]
                                       @ binary_to_hex kid))
                   else Some (res, dest2))))"

definition private_key_value ::
  "('e, 'rsa, 'pt) openssl \<Rightarrow> bool \<Rightarrow> bool \<Rightarrow> ('rsa, 'pt) EVP_PKEY
     \<Rightarrow> (error + buffer) option"
where
  \<comment> \<open>"convert key to private key value". The RSA branch declares
      \<^verbatim>\<open>unsigned char *ptr;\<close> and hands \<^verbatim>\<open>&ptr\<close> to \<^verbatim>\<open>i2d_RSAPrivateKey\<close> without
      assigning it. The toolkit allocates the encoding where it finds NULL there, and
      otherwise writes the encoding through the pointer and moves the pointer behind it.
      \<open>ptr_null\<close> says whether the unassigned \<^verbatim>\<open>ptr\<close> holds NULL; when it does not, the
      encoding goes to an address nobody chose and the bytes appended are those behind it:
      the call has no defined result. An EC key without private number hands NULL to
      \<^verbatim>\<open>BN_bn2mpi\<close>. For a key of another type the test is
      \<^verbatim>\<open>if (*error_r != NULL)\<close>: "Unsupported key type" is written only over a message
      that \<^verbatim>\<open>*error_r\<close> already held on entry (\<open>error_set\<close>), and otherwise the function
      returns \<^verbatim>\<open>FALSE\<close> with \<^verbatim>\<open>*error_r\<close> left NULL.\<close>
  "private_key_value ossl ptr_null error_set pkey =
     (if EVP_PKEY_base_id (objs ossl) pkey = EVP_PKEY_RSA then
        (case pkey of
           PKEY_RSA rsa \<Rightarrow>
             if ptr_null then
               (case i2d_RSAPrivateKey (rsas ossl) rsa of
                  None \<Rightarrow> Some (Inl OpenSSL_error)
                | Some der \<Rightarrow> Some (Inr der))
             else None
         | _ \<Rightarrow> None)
      else if EVP_PKEY_base_id (objs ossl) pkey = EVP_PKEY_EC then
        (case pkey of
           PKEY_EC eckey \<Rightarrow>
             (case private_key eckey of
                None \<Rightarrow> None
              | Some pk \<Rightarrow> Some (Inr (BN_bn2mpi (bns ossl) pk)))
         | _ \<Rightarrow> None)
      else Some (Inl (if error_set then Unsupported_key_type else Error_unset)))"

definition key_algorithm_nid :: "('e, 'rsa, 'pt) openssl \<Rightarrow> ('rsa, 'pt) EVP_PKEY \<Rightarrow> int option" where
  \<comment> \<open>the NID whose object is written: the curve's for an EC key ("because otherwise we get
      wrong nid"), the key type's otherwise\<close>
  "key_algorithm_nid ossl pkey =
     (if EVP_PKEY_base_id (objs ossl) pkey = EVP_PKEY_EC then
        (case pkey of PKEY_EC eckey \<Rightarrow> Some (curve_name eckey) | _ \<Rightarrow> None)
      else Some (EVP_PKEY_id pkey))"

definition buffer_set_used_size :: "string \<Rightarrow> nat \<Rightarrow> string" where
  \<comment> \<open>the first \<open>n\<close> characters of the buffer; a buffer that grows is filled with NUL\<close>
  "buffer_set_used_size buf n = take n buf @ replicate (n - length buf) (CHR 0x00)"

definition dcrypt_openssl_store_private_key_dovecot ::
  "('e, 'rsa, 'pt) openssl \<Rightarrow> string \<Rightarrow> nat \<Rightarrow> (nat \<Rightarrow> byte) \<Rightarrow> bool \<Rightarrow> bool
     \<Rightarrow> ('rsa, 'pt) EVP_PKEY \<Rightarrow> string option \<Rightarrow> string \<Rightarrow> string option
     \<Rightarrow> ('rsa, 'pt) EVP_PKEY option \<Rightarrow> (ret \<times> string) option"
where
  "dcrypt_openssl_store_private_key_dovecot ossl enc_hash enc_rounds rnd ptr_null error_set
       key_p cipher_name destination password enc_key =
     (case key_algorithm_nid ossl key_p of
        None \<Rightarrow> None
      | Some nid \<Rightarrow>
          (let dest_used = length destination;
               txt = OBJ_nid2txt (objs ossl) nid;
               ln = length txt;
               objtxt = take 79 txt
           in if ln < 1 then Some (FALSE OpenSSL_error, destination)
              else if ln > 80 then Some (FALSE Object_identifier_too_long, destination)
              else
                (case private_key_value ossl ptr_null error_set key_p of
                   None \<Rightarrow> None
                 | Some (Inl e) \<Rightarrow> Some (FALSE e, destination)
                 | Some (Inr buf) \<Rightarrow>
                     (case (case cipher_name of
                              None \<Rightarrow> Some (0, [])
                            | Some c \<Rightarrow>
                                if strncasecmp_eq c ''ecdh-'' 5 then
                                  (if enc_key = None then None
                                   else if password = None
                                   then Some (DCRYPT_DOVECOT_KEY_ENCRYPT_PK, drop 5 c)
                                   else None)
                                else
                                  (if enc_key = None then
                                     (if password = None then None
                                      else Some (DCRYPT_DOVECOT_KEY_ENCRYPT_PASSWORD, c))
                                   else None)) of
                        None \<Rightarrow> None
                      | Some (enctype, cipher2) \<Rightarrow>
                          (let dest1 = destination @ ''2'' @ [TAB] @ objtxt @ [TAB]
                                       @ printf_d (nat enctype) @ [TAB]
                           in case (if enctype > 0 then
                                      dcrypt_openssl_encrypt_private_key_dovecot ossl enc_hash
                                        enc_rounds rnd buf enctype cipher2 password enc_key dest1
                                    else Some (TRUE, dest1 @ binary_to_hex buf)) of
                                None \<Rightarrow> None
                              | Some (FALSE e, dest2) \<Rightarrow>
                                  Some (FALSE e, buffer_set_used_size dest2 dest_used)
                              | Some (TRUE, dest2) \<Rightarrow>
                                  (case dcrypt_openssl_private_to_public_key ossl (Some key_p) of
                                     None \<Rightarrow> None
                                   | Some (Inl e) \<Rightarrow>
                                       Some (FALSE e, buffer_set_used_size dest2 dest_used)
                                   | Some (Inr pubkey) \<Rightarrow>
                                       (case dcrypt_openssl_public_key_id ossl (Some pubkey)
                                               ''sha256'' [] of
                                          None \<Rightarrow> None
                                        | Some (FALSE e, kid) \<Rightarrow>
                                            Some (FALSE e,
                                                  buffer_set_used_size
                                                    (dest2 @ [TAB] @ binary_to_hex kid)
                                                    dest_used)
                                        | Some (TRUE, kid) \<Rightarrow>
                                            Some (TRUE, dest2 @ [TAB] @ binary_to_hex kid))))))))"

section \<open>The key functions of the toolkit to run the model on\<close>

text \<open>
  The keys of this toolkit are small numbers: an RSA key is a natural number, an EC point
  an integer, the public point of a private number is three times the number, and the
  ECDH secret is the product of the private number and the peer's point. Three object
  identifiers are known: RSA encryption (NID 6) and the curves prime256v1 (NID 415) and
  secp521r1 (NID 716).
\<close>

definition be_int :: "buffer \<Rightarrow> int" where
  "be_int bs = foldl (\<lambda>a b. a * 256 + uint b) 0 bs"

definition probe_obj_api :: obj_api where
  "probe_obj_api =
     \<lparr>OBJ_sn2nid = (\<lambda>s. if s = ''prime256v1'' then 415
                         else if s = ''secp521r1'' then 716 else 0),
      OBJ_txt2nid = (\<lambda>s. if s = ''1.2.840.113549.1.1.1'' then 6
                          else if s = ''1.2.840.10045.3.1.7'' then 415
                          else if s = ''1.3.132.0.35'' then 716 else 0),
      OBJ_nid2txt = (\<lambda>n. if n = 6 then ''1.2.840.113549.1.1.1''
                          else if n = 415 then ''1.2.840.10045.3.1.7''
                          else if n = 716 then ''1.3.132.0.35'' else []),
      EVP_PKEY_type = (\<lambda>n. if n = 6 then 6 else if n = 408 then 408 else 0)\<rparr>"

definition probe_bn_api :: bn_api where
  "probe_bn_api =
     \<lparr>BN_bn2mpi = (\<lambda>n. [of_int (n div 256), of_int n]),
      BN_mpi2bn = (\<lambda>bs. if length bs = 2 then Some (be_int bs) else None),
      BN_hex2bn = (\<lambda>s. if fst (hex_to_binary s) = 0 then Some (be_int (snd (hex_to_binary s)))
                         else None),
      BN_bin2bn = (\<lambda>bs. Some (be_int bs))\<rparr>"

definition probe_rsa_api :: "nat rsa_api" where
  "probe_rsa_api =
     \<lparr>rsa_keygen = (\<lambda>bits. if bits < 512 then None else Some (bits div 64)),
      i2d_RSAPrivateKey = (\<lambda>r. Some [0x30, of_nat r]),
      d2i_RSAPrivateKey =
        (\<lambda>bs. if length bs = 2 \<and> hd bs = 0x30 then Some (unat (last bs)) else None),
      RSA_check_key = (\<lambda>r. if 0 < r then 1 else 0),
      RSAPublicKey_dup = (\<lambda>r. r)\<rparr>"

definition probe_ec_api :: "int ec_api" where
  "probe_ec_api =
     \<lparr>ec_keygen =
        (\<lambda>nid. if nid = 415 \<or> nid = 716
                then Some \<lparr>curve_name = nid, private_key = Some 7, public_key = Some 21,
                           conv_form = POINT_CONVERSION_UNCOMPRESSED, asn1_flag = 0\<rparr>
                else None),
      EC_KEY_new_by_curve_name = (\<lambda>nid. nid = 415 \<or> nid = 716),
      EC_POINT_mul = (\<lambda>nid d. (1, 3 * d)),
      EC_KEY_check_key =
        (\<lambda>k. case public_key k of
                None \<Rightarrow> 0
              | Some q \<Rightarrow>
                  (case private_key k of
                     None \<Rightarrow> 1
                   | Some d \<Rightarrow> if q = 3 * d \<and> 0 < d then 1 else 0)),
      EC_POINT_point2hex = (\<lambda>nid q. binary_to_hex [of_int q]),
      EC_POINT_oct2point = (\<lambda>nid bs. if length bs = 1 then Some (be_int bs) else None),
      EC_POINT_point2oct = (\<lambda>nid q. [of_int q])\<rparr>"

definition probe_pkey_api :: "(nat, int) pkey_api" where
  "probe_pkey_api =
     \<lparr>i2d_PUBKEY =
        (\<lambda>k. case k of
                PKEY_RSA r \<Rightarrow> Some [0x30, 1, of_nat r]
              | PKEY_EC eck \<Rightarrow>
                  (case public_key eck of
                     None \<Rightarrow> None
                   | Some q \<Rightarrow>
                       Some [0x30,
                             (if conv_form eck = POINT_CONVERSION_COMPRESSED then 2 else 4),
                             of_int (curve_name eck), of_int q])
              | PKEY_OTHER t \<Rightarrow> None),
      EVP_PKEY_derive =
        (\<lambda>local peer. case private_key local of
                         None \<Rightarrow> None
                       | Some d \<Rightarrow>
                           (case public_key peer of
                              None \<Rightarrow> None
                            | Some q \<Rightarrow> Some [of_int (d * q)])),
      EVP_PKEY_encrypt =
        (\<lambda>k data. case k of PKEY_RSA r \<Rightarrow> Some (map (\<lambda>b. b + of_nat r) data) | _ \<Rightarrow> None),
      EVP_PKEY_decrypt =
        (\<lambda>k data. case k of PKEY_RSA r \<Rightarrow> Some (map (\<lambda>b. b - of_nat r) data) | _ \<Rightarrow> None)\<rparr>"

definition probe_openssl :: "(probe_ctx, nat, int) openssl" where
  "probe_openssl =
     \<lparr>ciphers = probe_cipher_api, digests = probe_digest_api, objs = probe_obj_api,
      bns = probe_bn_api, rsas = probe_rsa_api, ecs = probe_ec_api, pkeys = probe_pkey_api\<rparr>"

definition probe_ec_key :: "(nat, int) EVP_PKEY" where
  \<comment> \<open>a private key on prime256v1: the number 7 with its public point 21, with the flags
      of a key that did not come from this file\<close>
  "probe_ec_key =
     PKEY_EC \<lparr>curve_name = 415, private_key = Some 7, public_key = Some 21,
              conv_form = POINT_CONVERSION_UNCOMPRESSED, asn1_flag = 0\<rparr>"

definition probe_random :: "nat \<Rightarrow> byte" where
  "probe_random i = of_nat (i + 1)"

definition probe_wrapped_record :: string where
  \<comment> \<open>a v2 record of eleven fields, wrapped under the RSA key 9 of this toolkit (field 9 is
      the identifier of that key)\<close>
  "probe_wrapped_record =
     ''2'' @ [TAB] @ ''1.2.840.10045.3.1.7'' @ [TAB] @ ''1'' @ [TAB] @ ''aes-256-ctr''
     @ [TAB] @ ''0102030405060708'' @ [TAB] @ ''sha256'' @ [TAB] @ ''2048'' @ [TAB] @ ''0007''
     @ [TAB] @ ''12131415161718191a1b1c1d1e1f2021''
     @ [TAB] @ ''300109'' @ replicate 58 (CHR ''0'')
     @ [TAB] @ ''30029f15'' @ replicate 56 (CHR ''0'')"

section \<open>The v2 identifier and the toolkit's side of a round trip\<close>

definition v2_key_id ::
  "('e, 'rsa, 'pt) openssl \<Rightarrow> ('rsa, 'pt) EVP_PKEY \<Rightarrow> buffer option"
where
  \<comment> \<open>the v2 identifier of a private key, as the file makes it where it writes and checks
      one: \<^verbatim>\<open>dcrypt_openssl_public_key_id\<close> with "sha256" on the key's public side, that is
      the SHA-256 of the DER SubjectPublicKeyInfo\<close>
  "v2_key_id ossl k =
     (case dcrypt_openssl_private_to_public_key ossl (Some k) of
        Some (Inr pubkey) \<Rightarrow>
          (case dcrypt_openssl_public_key_id ossl (Some pubkey) ''sha256'' [] of
             Some (TRUE, kid) \<Rightarrow> Some kid
           | _ \<Rightarrow> None)
      | _ \<Rightarrow> None)"

definition oid_roundtrip :: "obj_api \<Rightarrow> int \<Rightarrow> bool" where
  \<comment> \<open>the toolkit writes the object of the NID as a numeric text of 1 to 79 characters
      without TAB, and reads that text back as the NID\<close>
  "oid_roundtrip ob nid =
     (OBJ_nid2txt ob nid \<noteq> [] \<and> length (OBJ_nid2txt ob nid) < 80
      \<and> TAB \<notin> set (OBJ_nid2txt ob nid)
      \<and> OBJ_txt2nid ob (OBJ_nid2txt ob nid) = nid \<and> nid \<noteq> NID_undef)"

definition v2_codec_laws :: "('e, 'rsa, 'pt) openssl \<Rightarrow> ('rsa, 'pt) EVP_PKEY \<Rightarrow> bool" where
  \<comment> \<open>what a round trip of the private key \<open>k\<close> asks of the toolkit and of \<open>k\<close>: the type ids
      of RSA and EC are their own base types, SHA-256 is known, the key's algorithm
      identifier is written and read back, the public side has a DER encoding; an RSA key
      is encoded, decoded to itself and passes \<^verbatim>\<open>RSA_check_key\<close>; an EC key has a private
      number that the MPI encoding returns, on a curve the toolkit knows and that is no RSA
      type, its public point is the point of its private number, and the key made of the
      two passes \<^verbatim>\<open>EC_KEY_check_key\<close>\<close>
  "v2_codec_laws ossl k =
     (EVP_PKEY_type (objs ossl) EVP_PKEY_RSA = EVP_PKEY_RSA
      \<and> EVP_PKEY_type (objs ossl) EVP_PKEY_EC = EVP_PKEY_EC
      \<and> EVP_get_digestbyname (digests ossl) ''sha256'' \<noteq> None
      \<and> (case k of
           PKEY_RSA rsa \<Rightarrow>
             oid_roundtrip (objs ossl) EVP_PKEY_RSA
             \<and> (case i2d_RSAPrivateKey (rsas ossl) rsa of
                  None \<Rightarrow> False
                | Some der \<Rightarrow> d2i_RSAPrivateKey (rsas ossl) der = Some rsa)
             \<and> RSA_check_key (rsas ossl) rsa = 1
             \<and> i2d_PUBKEY (pkeys ossl) (PKEY_RSA (RSAPublicKey_dup (rsas ossl) rsa)) \<noteq> None
         | PKEY_EC eckey \<Rightarrow>
             oid_roundtrip (objs ossl) (curve_name eckey)
             \<and> EVP_PKEY_type (objs ossl) (curve_name eckey) \<noteq> EVP_PKEY_RSA
             \<and> EC_KEY_new_by_curve_name (ecs ossl) (curve_name eckey)
             \<and> (case private_key eckey of
                  None \<Rightarrow> False
                | Some d \<Rightarrow>
                    BN_mpi2bn (bns ossl) (BN_bn2mpi (bns ossl) d) = Some d
                    \<and> fst (assign_private_key ossl (curve_name eckey) d) = 1
                    \<and> public_key eckey
                        = public_key (snd (assign_private_key ossl (curve_name eckey) d))
                    \<and> EC_KEY_check_key (ecs ossl)
                         (snd (assign_private_key ossl (curve_name eckey) d)) = 1
                    \<and> i2d_PUBKEY (pkeys ossl)
                         (PKEY_EC (snd (assign_private_key ossl (curve_name eckey) d)))
                        \<noteq> None)
         | PKEY_OTHER t \<Rightarrow> False))"

section \<open>Properties of the inspector\<close>

text \<open>
  C5 (the code differs). A key string whose first field is "2" is reported as version 1:
  the branch for "2" assigns \<^verbatim>\<open>DCRYPT_KEY_VERSION_1\<close>, as the branch for "1" does. Here
  on a v2 password-encrypted private key of nine fields and on a v2 public key.
\<close>

theorem key_string_get_info_v2_reports_v1:
  "dcrypt_openssl_key_string_get_info
     (Some (''2'' @ [TAB] @ ''1.2.840.113549.1.1.1'' @ [TAB] @ ''2'' @ [TAB] @ ''aes-256-ctr''
            @ [TAB] @ ''0011'' @ [TAB] @ ''sha256'' @ [TAB] @ ''2048'' @ [TAB] @ ''beef''
            @ [TAB] @ ''cafe''))
   = Inr \<lparr>format = DCRYPT_FORMAT_DOVECOT, version = DCRYPT_KEY_VERSION_1,
           kind = DCRYPT_KEY_KIND_PRIVATE,
           encryption_type = DCRYPT_KEY_ENCRYPTION_TYPE_PASSWORD,
           encryption_key_hash = None, key_hash = Some ''cafe''\<rparr>
   \<and> dcrypt_openssl_key_string_get_info (Some (''2'' @ [TAB] @ ''3059''))
   = Inr \<lparr>format = DCRYPT_FORMAT_DOVECOT, version = DCRYPT_KEY_VERSION_1,
           kind = DCRYPT_KEY_KIND_PUBLIC,
           encryption_type = DCRYPT_KEY_ENCRYPTION_TYPE_NONE,
           encryption_key_hash = None, key_hash = Some ''3059''\<rparr>"
  by (simp add: dcrypt_openssl_key_string_get_info_def dovecot_key_info_def
        t_strsplit_tab_def TAB_def)

lemma dovecot_key_info_never_v2:
  "dovecot_key_info input = Inr i \<Longrightarrow> version i \<noteq> DCRYPT_KEY_VERSION_2"
  by (auto simp: dovecot_key_info_def Let_def split: if_splits)

text \<open>
  C9 (the code differs). A key string without PEM marker, with two fields or more and a
  first field that is neither "1" nor "2", is accepted: no branch follows the two version
  tests, and the call returns \<^verbatim>\<open>TRUE\<close> with the initial values of its locals.
\<close>

theorem key_string_get_info_unknown_version_accepted:
  "dcrypt_openssl_key_string_get_info (Some (''3'' @ [TAB] @ ''abc''))
   = Inr \<lparr>format = DCRYPT_FORMAT_DOVECOT, version = DCRYPT_KEY_VERSION_NA,
           kind = DCRYPT_KEY_KIND_PUBLIC,
           encryption_type = DCRYPT_KEY_ENCRYPTION_TYPE_NONE,
           encryption_key_hash = None, key_hash = Some ''abc''\<rparr>"
  by (simp add: dcrypt_openssl_key_string_get_info_def dovecot_key_info_def
        t_strsplit_tab_def TAB_def)

lemma dovecot_key_info_unknown_version:
  "2 \<le> length input \<Longrightarrow> input ! 0 \<noteq> ''1'' \<Longrightarrow> input ! 0 \<noteq> ''2'' \<Longrightarrow>
     \<exists>i. dovecot_key_info input = Inr i"
  by (simp add: dovecot_key_info_def Let_def)

section \<open>Properties of the symmetric context\<close>

lemma memcpy_fit: "memcpy (replicate n 0) k (min (length k) n) = fit n k"
  by (auto simp: memcpy_def fit_def min_def)

lemma memcpy_all: "memcpy (replicate (length t) 0) t (length t) = t"
  by (simp add: memcpy_def)

lemma memcpy_aad:
  "take (length a) (memcpy (replicate (max (Suc 0) (length a)) 0) a (length a)) = a"
  by (simp add: memcpy_def)

lemma length_fit: "length (fit n k) = n"
  by (simp add: fit_def)

lemma random_fill_fst: "fst (random_fill rnd n) = map rnd [0..<n]"
  by (simp add: random_fill_def)

lemma random_fill_twice:
  "fst (random_fill (snd (random_fill rnd n)) m) = map rnd [n..<n + m]"
  apply (simp add: random_fill_def)
  apply (rule nth_equalityI)
   apply simp
  apply (simp add: add.commute)
  done

lemma set_key_Some:
  "dcrypt_openssl_ctx_sym_set_key c k = Some c' \<Longrightarrow>
     c' = c\<lparr>key := Some (fit (EVP_CIPHER_key_length (cipher c)) k)\<rparr>"
  by (auto simp: dcrypt_openssl_ctx_sym_set_key_def p_malloc_def memcpy_fit split: if_splits)

lemma set_iv_Some:
  "dcrypt_openssl_ctx_sym_set_iv c v = Some c' \<Longrightarrow>
     c' = c\<lparr>iv := Some (fit (EVP_CIPHER_iv_length (cipher c)) v)\<rparr>"
  by (auto simp: dcrypt_openssl_ctx_sym_set_iv_def p_malloc_def memcpy_fit split: if_splits)

lemma set_key_iv_random_Some:
  "dcrypt_openssl_ctx_sym_set_key_iv_random c rnd = Some c' \<Longrightarrow>
     c' = c\<lparr>key := Some (map rnd [0..<EVP_CIPHER_key_length (cipher c)]),
            iv := Some (map rnd [EVP_CIPHER_key_length (cipher c)..<
                           EVP_CIPHER_key_length (cipher c) + EVP_CIPHER_iv_length (cipher c)])\<rparr>"
  unfolding dcrypt_openssl_ctx_sym_set_key_iv_random_def
  using random_fill_twice [of rnd "EVP_CIPHER_key_length (cipher c)" "EVP_CIPHER_iv_length (cipher c)"]
        random_fill_fst [of rnd "EVP_CIPHER_key_length (cipher c)"]
  by (auto split: option.splits prod.splits)

lemma set_aad_Some:
  "dcrypt_openssl_ctx_sym_set_aad c a = Some c' \<Longrightarrow> c' = c\<lparr>aad := Some a\<rparr>"
  by (auto simp: dcrypt_openssl_ctx_sym_set_aad_def p_malloc_def memcpy_aad split: if_splits)

lemma set_tag_Some:
  "dcrypt_openssl_ctx_sym_set_tag c t = Some c' \<Longrightarrow> c' = c\<lparr>tag := Some t\<rparr> \<and> t \<noteq> []"
  by (auto simp: dcrypt_openssl_ctx_sym_set_tag_def p_malloc_def memcpy_all split: if_splits)

lemma init_frame:
  "dcrypt_openssl_ctx_sym_init tk c = Some (r, c') \<Longrightarrow> \<exists>e. c' = c\<lparr>ctx := e\<rparr>"
  unfolding dcrypt_openssl_ctx_sym_init_def Let_def
  by (auto split: option.splits prod.splits if_splits intro: exI [of _ "ctx c"])

lemma init_TRUE_ctx:
  "dcrypt_openssl_ctx_sym_init tk c = Some (TRUE, c') \<Longrightarrow> ctx c' \<noteq> None"
  unfolding dcrypt_openssl_ctx_sym_init_def Let_def
  by (auto split: option.splits prod.splits if_splits)

lemma update_frame:
  "dcrypt_openssl_ctx_sym_update tk c d res = Some (r, c', res') \<Longrightarrow> \<exists>e. c' = c\<lparr>ctx := e\<rparr>"
  unfolding dcrypt_openssl_ctx_sym_update_def
  by (auto split: option.splits prod.splits if_splits)

lemma final_frame:
  "dcrypt_openssl_ctx_sym_final tk c res = Some (r, c', res') \<Longrightarrow>
     c' = c\<lparr>ctx := None\<rparr> \<or>
     (mode c = 1 \<and> aad c \<noteq> None \<and> tag c = None \<and>
      (\<exists>t. length t = EVP_GCM_TLS_TAG_LEN \<and> c' = c\<lparr>tag := Some t, ctx := None\<rparr>))"
  unfolding dcrypt_openssl_ctx_sym_final_def Let_def
  by (auto split: option.splits prod.splits if_splits
        intro!: exI [of _ "take EVP_GCM_TLS_TAG_LEN (t @ replicate EVP_GCM_TLS_TAG_LEN 0)" for t])

lemma final_ret_TRUE: "final_ret ec = TRUE \<longleftrightarrow> ec = 1"
  by (simp add: final_ret_def)

lemma final_ret_auth: "final_ret ec = FALSE Data_authentication_failed \<longleftrightarrow> ec = 0"
  by (simp add: final_ret_def)

lemma final_encrypt_tag:
  assumes "mode c = 1" and "aad c \<noteq> None"
      and "dcrypt_openssl_ctx_sym_final tk c res = Some (TRUE, c', res')"
  shows "\<exists>t. length t = EVP_GCM_TLS_TAG_LEN \<and> tag c' = Some t"
  using assms unfolding dcrypt_openssl_ctx_sym_final_def Let_def
  by (auto simp: final_ret_def split: option.splits prod.splits if_splits)

lemma final_decrypt_full:
  assumes "ctx c = Some e" and "mode c = 0" and "tag c = Some t"
  shows "\<exists>res'. dcrypt_openssl_ctx_sym_final tk c res
                   = Some (final_ret (gcm_tag_check tk e t), c\<lparr>ctx := None\<rparr>, res')
               \<and> (gcm_tag_check tk e t = 1 \<longrightarrow>
                    res' = res @ fst (snd (EVP_CipherFinal_ex tk
                                             (snd (EVP_CTRL_GCM_SET_TAG tk e t)))))"
  using assms unfolding dcrypt_openssl_ctx_sym_final_def gcm_tag_check_def Let_def
  by (auto simp: final_ret_def split: prod.splits)

lemma final_encrypt_full:
  assumes "ctx c = Some e" and "mode c = 1" and "aad c \<noteq> None"
      and "dcrypt_openssl_ctx_sym_final tk c res = Some (TRUE, c', res')"
  shows "fst (EVP_CipherFinal_ex tk e) = 1
       \<and> fst (EVP_CTRL_GCM_GET_TAG tk (snd (snd (EVP_CipherFinal_ex tk e))) 16) = 1
       \<and> res' = res @ fst (snd (EVP_CipherFinal_ex tk e))
       \<and> c' = c\<lparr>tag := Some (take 16
                    (snd (EVP_CTRL_GCM_GET_TAG tk (snd (snd (EVP_CipherFinal_ex tk e))) 16)
                     @ replicate 16 0)),
                ctx := None\<rparr>"
  using assms unfolding dcrypt_openssl_ctx_sym_final_def Let_def EVP_GCM_TLS_TAG_LEN_def
  by (auto simp: final_ret_def split: option.splits prod.splits if_splits)

lemma final_encrypt_succeeds:
  assumes "ctx c = Some e" and "mode c = 1" and "aad c \<noteq> None" and "tag c = None"
      and "fst (EVP_CipherFinal_ex tk e) = 1"
      and "fst (EVP_CTRL_GCM_GET_TAG tk (snd (snd (EVP_CipherFinal_ex tk e))) 16) = 1"
  shows "\<exists>c' res'. dcrypt_openssl_ctx_sym_final tk c res = Some (TRUE, c', res')"
  using assms unfolding dcrypt_openssl_ctx_sym_final_def Let_def EVP_GCM_TLS_TAG_LEN_def
  by (auto simp: final_ret_def split: option.splits prod.splits if_splits)

lemma sym_step_frame:
  assumes "sym_step tk x c = Some c'"
  shows "cipher c' = cipher c \<and> mode c' = mode c
       \<and> key c' = set_key_value (cipher c) (key c) x
       \<and> iv c' = set_iv_value (cipher c) (iv c) x
       \<and> aad c' = set_aad_value (aad c) x"
proof (cases x)
  case (Set_key k) with assms show ?thesis by (auto dest: set_key_Some)
next
  case (Set_iv v) with assms show ?thesis by (auto dest: set_iv_Some)
next
  case (Set_key_iv_random rnd) with assms show ?thesis by (auto dest: set_key_iv_random_Some)
next
  case (Set_padding p) with assms show ?thesis
    by (auto simp: dcrypt_openssl_ctx_sym_set_padding_def)
next
  case (Set_aad a) with assms show ?thesis by (auto dest: set_aad_Some)
next
  case (Set_tag t) with assms show ?thesis by (auto dest: set_tag_Some)
next
  case Init with assms show ?thesis by (auto dest: init_frame)
next
  case (Update d) with assms show ?thesis by (auto dest: update_frame)
next
  case Final with assms show ?thesis by (auto dest: final_frame)
qed

lemma sym_step_tag:
  assumes "sym_step tk x c = Some c'" and "mode c = 0 \<or> x \<noteq> Final"
  shows "tag c' = set_tag_value (tag c) x"
proof (cases x)
  case (Set_key k) with assms show ?thesis by (auto dest: set_key_Some)
next
  case (Set_iv v) with assms show ?thesis by (auto dest: set_iv_Some)
next
  case (Set_key_iv_random rnd) with assms show ?thesis by (auto dest: set_key_iv_random_Some)
next
  case (Set_padding p) with assms show ?thesis
    by (auto simp: dcrypt_openssl_ctx_sym_set_padding_def)
next
  case (Set_aad a) with assms show ?thesis by (auto dest: set_aad_Some)
next
  case (Set_tag t) with assms show ?thesis by (auto dest: set_tag_Some)
next
  case Init with assms show ?thesis by (auto dest: init_frame)
next
  case (Update d) with assms show ?thesis by (auto dest: update_frame)
next
  case Final with assms show ?thesis by (auto dest: final_frame)
qed

lemma sym_run_frame:
  "sym_run tk xs c = Some c' \<Longrightarrow>
     cipher c' = cipher c \<and> mode c' = mode c
     \<and> key c' = foldl (set_key_value (cipher c)) (key c) xs
     \<and> iv c' = foldl (set_iv_value (cipher c)) (iv c) xs
     \<and> aad c' = foldl set_aad_value (aad c) xs"
proof (induction xs arbitrary: c)
  case Nil then show ?case by simp
next
  case (Cons x xs)
  then obtain c1 where s: "sym_step tk x c = Some c1" and r: "sym_run tk xs c1 = Some c'"
    by (auto split: option.splits)
  from sym_step_frame [OF s] Cons.IH [OF r] show ?case by simp
qed

lemma sym_run_tag:
  "sym_run tk xs c = Some c' \<Longrightarrow> mode c = 0 \<or> Final \<notin> set xs \<Longrightarrow>
     tag c' = foldl set_tag_value (tag c) xs"
proof (induction xs arbitrary: c)
  case Nil then show ?case by simp
next
  case (Cons x xs)
  then obtain c1 where s: "sym_step tk x c = Some c1" and r: "sym_run tk xs c1 = Some c'"
    by (auto split: option.splits)
  from Cons.prems(2) have a: "mode c = 0 \<or> x \<noteq> Final" by auto
  from sym_step_frame [OF s] have m: "mode c1 = mode c" by simp
  from Cons.prems(2) m have b: "mode c1 = 0 \<or> Final \<notin> set xs" by auto
  from sym_step_tag [OF s a] Cons.IH [OF r b] show ?case by simp
qed

lemma sym_step_tag_origin:
  assumes "sym_step tk x c = Some c'" and "tag c' \<noteq> None"
  shows "tag c \<noteq> None \<or> (\<exists>t. x = Set_tag t) \<or> (x = Final \<and> mode c = 1 \<and> aad c \<noteq> None)"
proof (cases x)
  case (Set_key k) with assms show ?thesis by (auto dest: set_key_Some)
next
  case (Set_iv v) with assms show ?thesis by (auto dest: set_iv_Some)
next
  case (Set_key_iv_random rnd) with assms show ?thesis by (auto dest: set_key_iv_random_Some)
next
  case (Set_padding p) with assms show ?thesis
    by (auto simp: dcrypt_openssl_ctx_sym_set_padding_def)
next
  case (Set_aad a) with assms show ?thesis by (auto dest: set_aad_Some)
next
  case (Set_tag t) with assms show ?thesis by auto
next
  case Init with assms show ?thesis by (auto dest: init_frame)
next
  case (Update d) with assms show ?thesis by (auto dest: update_frame)
next
  case Final with assms show ?thesis by (auto dest: final_frame)
qed

lemma sym_step_aad_origin:
  assumes "sym_step tk x c = Some c'" and "aad c' \<noteq> None"
  shows "aad c \<noteq> None \<or> (\<exists>a. x = Set_aad a)"
  using sym_step_frame [OF assms(1)] assms(2) by (cases x) auto

lemma sym_run_tag_origin:
  "sym_run tk xs c = Some c' \<Longrightarrow> tag c' \<noteq> None \<Longrightarrow>
     tag c \<noteq> None \<or> (\<exists>t. Set_tag t \<in> set xs)
     \<or> (mode c = 1 \<and> Final \<in> set xs \<and> (aad c \<noteq> None \<or> (\<exists>a. Set_aad a \<in> set xs)))"
proof (induction xs arbitrary: c)
  case Nil then show ?case by simp
next
  case (Cons x xs)
  then obtain c1 where s: "sym_step tk x c = Some c1" and r: "sym_run tk xs c1 = Some c'"
    by (auto split: option.splits)
  from sym_step_frame [OF s] have m: "mode c1 = mode c" by simp
  from Cons.IH [OF r Cons.prems(2)]
  consider "tag c1 \<noteq> None" | "\<exists>t. Set_tag t \<in> set xs"
    | "mode c1 = 1" "Final \<in> set xs" "aad c1 \<noteq> None \<or> (\<exists>a. Set_aad a \<in> set xs)"
    by blast
  then show ?case
  proof cases
    case 1
    from sym_step_tag_origin [OF s 1] show ?thesis by auto
  next
    case 2 then show ?thesis by auto
  next
    case 3
    show ?thesis
    proof (cases "aad c1 \<noteq> None")
      case True
      from sym_step_aad_origin [OF s True] 3 m show ?thesis by auto
    next
      case False
      with 3 m show ?thesis by auto
    qed
  qed
qed

lemma fold_key_length:
  "(case k0 of None \<Rightarrow> True | Some k \<Rightarrow> length k = EVP_CIPHER_key_length ci) \<Longrightarrow>
   (case foldl (set_key_value ci) k0 xs of
      None \<Rightarrow> True | Some k \<Rightarrow> length k = EVP_CIPHER_key_length ci)"
proof (induction xs arbitrary: k0)
  case Nil then show ?case by simp
next
  case (Cons x xs)
  show ?case by (simp, rule Cons.IH, cases x) (use Cons.prems in \<open>auto simp: length_fit\<close>)
qed

lemma fold_iv_length:
  "(case k0 of None \<Rightarrow> True | Some k \<Rightarrow> length k = EVP_CIPHER_iv_length ci) \<Longrightarrow>
   (case foldl (set_iv_value ci) k0 xs of
      None \<Rightarrow> True | Some k \<Rightarrow> length k = EVP_CIPHER_iv_length ci)"
proof (induction xs arbitrary: k0)
  case Nil then show ?case by simp
next
  case (Cons x xs)
  show ?case by (simp, rule Cons.IH, cases x) (use Cons.prems in \<open>auto simp: length_fit\<close>)
qed

text \<open>
  C10. On a context fresh from \<^verbatim>\<open>create\<close> and driven by any sequence of calls that runs
  to its end, \<^verbatim>\<open>get_key\<close>, \<^verbatim>\<open>get_iv\<close> and \<^verbatim>\<open>get_aad\<close> answer by what the sequence has
  set: false and nothing appended while no call has set the value, true and the value last
  set appended afterwards (a key and an IV at the cipher's length). \<^verbatim>\<open>get_tag\<close> does the
  same for \<^verbatim>\<open>set_tag\<close>, in decryption or while \<^verbatim>\<open>final\<close> has not been called; it
  is true only after \<^verbatim>\<open>set_tag\<close>, or after \<^verbatim>\<open>final\<close> in encryption with AAD set; and
  a successful \<^verbatim>\<open>final\<close> in encryption with AAD set leaves a tag of sixteen bytes that
  \<^verbatim>\<open>get_tag\<close> appends. The empty sequence is the fresh context.
\<close>

theorem sym_getters_follow_setters:
  assumes cr: "dcrypt_openssl_ctx_sym_create tk algorithm m = Inr c0"
      and run: "sym_run tk xs c0 = Some c"
  shows "dcrypt_openssl_ctx_sym_get_key c buf
           = got buf (foldl (set_key_value (cipher c0)) None xs)
       \<and> dcrypt_openssl_ctx_sym_get_iv c buf
           = got buf (foldl (set_iv_value (cipher c0)) None xs)
       \<and> dcrypt_openssl_ctx_sym_get_aad c buf = got buf (foldl set_aad_value None xs)
       \<and> (m = DCRYPT_MODE_DECRYPT \<or> Final \<notin> set xs \<longrightarrow>
            dcrypt_openssl_ctx_sym_get_tag c buf = got buf (foldl set_tag_value None xs))
       \<and> (fst (dcrypt_openssl_ctx_sym_get_tag c buf) \<longrightarrow>
            (\<exists>t. Set_tag t \<in> set xs)
            \<or> (m = DCRYPT_MODE_ENCRYPT \<and> Final \<in> set xs \<and> (\<exists>a. Set_aad a \<in> set xs)))
       \<and> (\<forall>res c' res'. m = DCRYPT_MODE_ENCRYPT \<and> aad c \<noteq> None
              \<and> dcrypt_openssl_ctx_sym_final tk c res = Some (TRUE, c', res') \<longrightarrow>
            (\<exists>t. length t = 16 \<and> dcrypt_openssl_ctx_sym_get_tag c' buf = (True, buf @ t)))"
proof -
  from cr have fresh: "key c0 = None" "iv c0 = None" "aad c0 = None" "tag c0 = None"
    and md: "mode c0 = (if m = DCRYPT_MODE_ENCRYPT then 1 else 0)"
    by (auto simp: dcrypt_openssl_ctx_sym_create_def split: option.splits)
  note fr = sym_run_frame [OF run]
  from fr have ci: "cipher c = cipher c0" by simp
  have k: "dcrypt_openssl_ctx_sym_get_key c buf
             = got buf (foldl (set_key_value (cipher c0)) None xs)"
    using fr fresh(1) fold_key_length [where ?k0.0 = None and ci = "cipher c0" and xs = xs]
    by (auto simp: dcrypt_openssl_ctx_sym_get_key_def got_def split: option.splits)
  have v: "dcrypt_openssl_ctx_sym_get_iv c buf
             = got buf (foldl (set_iv_value (cipher c0)) None xs)"
    using fr fresh(2) fold_iv_length [where ?k0.0 = None and ci = "cipher c0" and xs = xs]
    by (auto simp: dcrypt_openssl_ctx_sym_get_iv_def got_def split: option.splits)
  have a: "dcrypt_openssl_ctx_sym_get_aad c buf = got buf (foldl set_aad_value None xs)"
    using fr fresh(3)
    by (auto simp: dcrypt_openssl_ctx_sym_get_aad_def got_def split: option.splits)
  have t: "dcrypt_openssl_ctx_sym_get_tag c buf = got buf (foldl set_tag_value None xs)"
    if "m = DCRYPT_MODE_DECRYPT \<or> Final \<notin> set xs"
  proof -
    from that md have "mode c0 = 0 \<or> Final \<notin> set xs" by auto
    from sym_run_tag [OF run this] fresh(4) show ?thesis
      by (auto simp: dcrypt_openssl_ctx_sym_get_tag_def got_def split: option.splits)
  qed
  have f: "\<exists>t. length t = 16 \<and> dcrypt_openssl_ctx_sym_get_tag c' buf = (True, buf @ t)"
    if "m = DCRYPT_MODE_ENCRYPT" and "aad c \<noteq> None"
      and "dcrypt_openssl_ctx_sym_final tk c res = Some (TRUE, c', res')" for res c' res'
  proof -
    from that(1) md fr have "mode c = 1" by simp
    from final_encrypt_tag [OF this that(2) that(3)] show ?thesis
      by (auto simp: dcrypt_openssl_ctx_sym_get_tag_def EVP_GCM_TLS_TAG_LEN_def)
  qed
  have o: "(\<exists>t. Set_tag t \<in> set xs)
            \<or> (m = DCRYPT_MODE_ENCRYPT \<and> Final \<in> set xs \<and> (\<exists>a. Set_aad a \<in> set xs))"
    if "fst (dcrypt_openssl_ctx_sym_get_tag c buf)"
  proof -
    from that have "tag c \<noteq> None"
      by (auto simp: dcrypt_openssl_ctx_sym_get_tag_def split: option.splits)
    from sym_run_tag_origin [OF run this] fresh(3,4) md show ?thesis
      by (auto split: if_splits)
  qed
  from k v a t o f show ?thesis by blast
qed

theorem sym_getters_follow_setters_witness:
  "(case dcrypt_openssl_ctx_sym_create probe_cipher_api ''aes-256-gcm'' DCRYPT_MODE_ENCRYPT of
      Inl _ \<Rightarrow> False
    | Inr c0 \<Rightarrow>
        dcrypt_openssl_ctx_sym_get_key c0 [9] = (False, [9])
      \<and> dcrypt_openssl_ctx_sym_get_iv c0 [9] = (False, [9])
      \<and> dcrypt_openssl_ctx_sym_get_aad c0 [9] = (False, [9])
      \<and> dcrypt_openssl_ctx_sym_get_tag c0 [9] = (False, [9])
      \<and> (case sym_run probe_cipher_api [Set_key [1, 2, 3], Set_iv [4], Set_aad [7], Init] c0 of
           None \<Rightarrow> False
         | Some c \<Rightarrow>
             dcrypt_openssl_ctx_sym_get_key c [9] = (True, [9, 1, 2, 3] @ replicate 29 0)
           \<and> dcrypt_openssl_ctx_sym_get_iv c [9] = (True, [9, 4] @ replicate 11 0)
           \<and> dcrypt_openssl_ctx_sym_get_aad c [9] = (True, [9, 7])
           \<and> dcrypt_openssl_ctx_sym_get_tag c [9] = (False, [9])
           \<and> (case dcrypt_openssl_ctx_sym_final probe_cipher_api c [] of
                Some (TRUE, c', res') \<Rightarrow>
                  (\<exists>t. length t = 16 \<and> dcrypt_openssl_ctx_sym_get_tag c' [9] = (True, 9 # t))
              | _ \<Rightarrow> False)))"
proof -
  define c0 :: "probe_ctx dcrypt_context_symmetric" where
    "c0 = \<lparr>cipher = aes_256_gcm, ctx = None, key = None, iv = None, aad = None, tag = None,
           padding = 1, mode = 1\<rparr>"
  define c where
    "c = c0\<lparr>key := Some ([1, 2, 3] @ replicate 29 0), iv := Some ([4] @ replicate 11 0),
            aad := Some [7],
            ctx := Some \<lparr>p_key = [1, 2, 3] @ replicate 29 0, p_iv = [4] @ replicate 11 0,
                         p_enc = 1, p_tag = []\<rparr>\<rparr>"
  have cr: "dcrypt_openssl_ctx_sym_create probe_cipher_api ''aes-256-gcm'' DCRYPT_MODE_ENCRYPT
              = Inr c0"
    unfolding c0_def by code_simp
  have r0: "sym_run probe_cipher_api [] c0 = Some c0" by simp
  have r1: "sym_run probe_cipher_api [Set_key [1, 2, 3], Set_iv [4], Set_aad [7], Init] c0
              = Some c"
    unfolding c_def c0_def by code_simp
  obtain c' res' where fin: "dcrypt_openssl_ctx_sym_final probe_cipher_api c [] = Some (TRUE, c', res')"
    unfolding c_def c0_def
    by (simp add: dcrypt_openssl_ctx_sym_final_def probe_cipher_api_def final_ret_def Let_def)
  have aadc: "aad c \<noteq> None" by (simp add: c_def)
  note A = sym_getters_follow_setters [OF cr r0, of "[9]"]
  note B = sym_getters_follow_setters [OF cr r1, of "[9]"]
  from B aadc fin
  have T: "\<exists>t. length t = 16 \<and> dcrypt_openssl_ctx_sym_get_tag c' [9] = (True, [9] @ t)"
    by blast
  from A have A': "dcrypt_openssl_ctx_sym_get_key c0 [9] = (False, [9])
      \<and> dcrypt_openssl_ctx_sym_get_iv c0 [9] = (False, [9])
      \<and> dcrypt_openssl_ctx_sym_get_aad c0 [9] = (False, [9])
      \<and> dcrypt_openssl_ctx_sym_get_tag c0 [9] = (False, [9])"
    by (simp add: got_def)
  from B have B': "dcrypt_openssl_ctx_sym_get_key c [9] = (True, [9, 1, 2, 3] @ replicate 29 0)
           \<and> dcrypt_openssl_ctx_sym_get_iv c [9] = (True, [9, 4] @ replicate 11 0)
           \<and> dcrypt_openssl_ctx_sym_get_aad c [9] = (True, [9, 7])
           \<and> dcrypt_openssl_ctx_sym_get_tag c [9] = (False, [9])"
    by (simp add: got_def c0_def aes_256_gcm_def fit_def)
  show ?thesis
    apply (simp only: cr sum.case)
    apply (simp only: r1 option.case)
    apply (simp only: fin option.case prod.case ret.case)
    using A' B' T apply simp
    done
qed

text \<open>
  C4. On an initialised context with toolkit state \<open>e\<close>. In decryption with a tag \<open>t\<close> set,
  \<^verbatim>\<open>final\<close> returns and releases the toolkit state, leaving every other field as it was; it
  fails with "data authentication failed" exactly when the toolkit's verdict on the tag
  (\<^verbatim>\<open>EVP_CTRL_GCM_SET_TAG\<close>, then \<^verbatim>\<open>EVP_CipherFinal_ex\<close>) is 0, and succeeds exactly when
  the verdict is 1, in which case the result buffer has grown by what \<^verbatim>\<open>EVP_CipherFinal_ex\<close>
  wrote. In encryption with AAD set, \<^verbatim>\<open>final\<close> succeeds only if \<^verbatim>\<open>EVP_CipherFinal_ex\<close> on \<open>e\<close>
  and \<^verbatim>\<open>EVP_CTRL_GCM_GET_TAG\<close> for \<^verbatim>\<open>EVP_GCM_TLS_TAG_LEN\<close> = 16 bytes on the state it leaves
  both answer 1; the tag stored is then the toolkit's answer to that \<^verbatim>\<open>EVP_CTRL_GCM_GET_TAG\<close>,
  in a zeroed array of sixteen bytes, the result buffer has grown by the output of
  \<^verbatim>\<open>EVP_CipherFinal_ex\<close>, and \<^verbatim>\<open>get_tag\<close> appends exactly those sixteen bytes. Conversely, with
  no tag stored before, those two answers of 1 make \<^verbatim>\<open>final\<close> succeed.
\<close>

theorem sym_final_authentication:
  assumes init: "ctx c = Some e"
  shows "(mode c = 0 \<longrightarrow> tag c = Some t \<longrightarrow>
            (\<exists>r res'. dcrypt_openssl_ctx_sym_final tk c res = Some (r, c\<lparr>ctx := None\<rparr>, res')
               \<and> (r = FALSE Data_authentication_failed \<longleftrightarrow> gcm_tag_check tk e t = 0)
               \<and> (r = TRUE \<longleftrightarrow> gcm_tag_check tk e t = 1)
               \<and> (r = TRUE \<longrightarrow>
                    res' = res @ fst (snd (EVP_CipherFinal_ex tk
                                             (snd (EVP_CTRL_GCM_SET_TAG tk e t)))))))
       \<and> (\<forall>c' res'. mode c = 1 \<longrightarrow> aad c \<noteq> None \<longrightarrow>
              dcrypt_openssl_ctx_sym_final tk c res = Some (TRUE, c', res') \<longrightarrow>
            fst (EVP_CipherFinal_ex tk e) = 1
            \<and> fst (EVP_CTRL_GCM_GET_TAG tk (snd (snd (EVP_CipherFinal_ex tk e))) 16) = 1
            \<and> res' = res @ fst (snd (EVP_CipherFinal_ex tk e))
            \<and> c' = c\<lparr>tag := Some (take 16
                         (snd (EVP_CTRL_GCM_GET_TAG tk (snd (snd (EVP_CipherFinal_ex tk e))) 16)
                          @ replicate 16 0)),
                     ctx := None\<rparr>
            \<and> dcrypt_openssl_ctx_sym_get_tag c' buf
                = (True, buf @ take 16
                     (snd (EVP_CTRL_GCM_GET_TAG tk (snd (snd (EVP_CipherFinal_ex tk e))) 16)
                      @ replicate 16 0))
            \<and> length (snd (dcrypt_openssl_ctx_sym_get_tag c' buf)) = length buf + 16)
       \<and> (mode c = 1 \<longrightarrow> aad c \<noteq> None \<longrightarrow> tag c = None \<longrightarrow>
            fst (EVP_CipherFinal_ex tk e) = 1 \<longrightarrow>
            fst (EVP_CTRL_GCM_GET_TAG tk (snd (snd (EVP_CipherFinal_ex tk e))) 16) = 1 \<longrightarrow>
            (\<exists>c' res'. dcrypt_openssl_ctx_sym_final tk c res = Some (TRUE, c', res')))"
proof (intro conjI impI allI)
  assume "mode c = 0" and "tag c = Some t"
  from final_decrypt_full [OF init this, of tk res]
  show "\<exists>r res'. dcrypt_openssl_ctx_sym_final tk c res = Some (r, c\<lparr>ctx := None\<rparr>, res')
               \<and> (r = FALSE Data_authentication_failed \<longleftrightarrow> gcm_tag_check tk e t = 0)
               \<and> (r = TRUE \<longleftrightarrow> gcm_tag_check tk e t = 1)
               \<and> (r = TRUE \<longrightarrow>
                    res' = res @ fst (snd (EVP_CipherFinal_ex tk
                                             (snd (EVP_CTRL_GCM_SET_TAG tk e t)))))"
    by (auto simp: final_ret_TRUE final_ret_auth)
next
  fix c' res'
  assume a: "mode c = 1" "aad c \<noteq> None"
    "dcrypt_openssl_ctx_sym_final tk c res = Some (TRUE, c', res')"
  note f = final_encrypt_full [OF init a]
  from f show "fst (EVP_CipherFinal_ex tk e) = 1" by simp
  from f show "fst (EVP_CTRL_GCM_GET_TAG tk (snd (snd (EVP_CipherFinal_ex tk e))) 16) = 1"
    by simp
  from f show "res' = res @ fst (snd (EVP_CipherFinal_ex tk e))" by simp
  from f show c': "c' = c\<lparr>tag := Some (take 16
                         (snd (EVP_CTRL_GCM_GET_TAG tk (snd (snd (EVP_CipherFinal_ex tk e))) 16)
                          @ replicate 16 0)),
                     ctx := None\<rparr>" by simp
  then show g: "dcrypt_openssl_ctx_sym_get_tag c' buf
                = (True, buf @ take 16
                     (snd (EVP_CTRL_GCM_GET_TAG tk (snd (snd (EVP_CipherFinal_ex tk e))) 16)
                      @ replicate 16 0))"
    by (simp add: dcrypt_openssl_ctx_sym_get_tag_def)
  show "length (snd (dcrypt_openssl_ctx_sym_get_tag c' buf)) = length buf + 16"
    unfolding g by simp
next
  assume "mode c = 1" "aad c \<noteq> None" "tag c = None" "fst (EVP_CipherFinal_ex tk e) = 1"
    "fst (EVP_CTRL_GCM_GET_TAG tk (snd (snd (EVP_CipherFinal_ex tk e))) 16) = 1"
  from final_encrypt_succeeds [OF init this]
  show "\<exists>c' res'. dcrypt_openssl_ctx_sym_final tk c res = Some (TRUE, c', res')" .
qed

lemma probe_sym_ctx_reached:
  "sym_run probe_cipher_api
     [Set_key (replicate 32 1), Set_iv (replicate 12 2), Set_aad [7],
      Set_tag (replicate 16 0xBB), Init]
     \<lparr>cipher = aes_256_gcm, ctx = None, key = None, iv = None, aad = None, tag = None,
      padding = 1, mode = 0\<rparr>
   = Some (probe_sym_ctx 0 (Some (replicate 16 0xBB)))"
  by code_simp

theorem sym_final_authentication_witness:
  "dcrypt_openssl_ctx_sym_final probe_cipher_api
     (probe_sym_ctx 0 (Some (replicate 16 0xBB))) [5]
     = Some (FALSE Data_authentication_failed,
             (probe_sym_ctx 0 (Some (replicate 16 0xBB)))\<lparr>ctx := None\<rparr>, [5, 0])
   \<and> dcrypt_openssl_ctx_sym_final probe_cipher_api
       (probe_sym_ctx 0 (Some (replicate 16 0xAA))) [5]
     = Some (TRUE, (probe_sym_ctx 0 (Some (replicate 16 0xAA)))\<lparr>ctx := None\<rparr>,
             [5] @ replicate 32 1 @ replicate 12 2)
   \<and> (case dcrypt_openssl_ctx_sym_final probe_cipher_api (probe_sym_ctx 1 None) [5] of
        Some (TRUE, c', res') \<Rightarrow>
          res' = [5] @ replicate 32 1 @ replicate 12 2
          \<and> tag c' = Some (replicate 16 0xAA)
          \<and> dcrypt_openssl_ctx_sym_get_tag c' [9] = (True, 9 # replicate 16 0xAA)
      | _ \<Rightarrow> False)"
proof -
  define e :: probe_ctx where
    "e = \<lparr>p_key = replicate 32 1, p_iv = replicate 12 2, p_enc = 0, p_tag = []\<rparr>"
  have bad: "gcm_tag_check probe_cipher_api e (replicate 16 0xBB) = 0"
    unfolding e_def by code_simp
  have good: "gcm_tag_check probe_cipher_api e (replicate 16 0xAA) = 1"
    unfolding e_def by code_simp
  have out: "fst (snd (EVP_CipherFinal_ex probe_cipher_api
                         (snd (EVP_CTRL_GCM_SET_TAG probe_cipher_api e (replicate 16 0xAA)))))
               = replicate 32 1 @ replicate 12 2"
    unfolding e_def by (simp add: probe_cipher_api_def)
  have ce: "ctx (probe_sym_ctx 0 t) = Some e" for t
    by (simp add: probe_sym_ctx_def e_def)
  have m0: "mode (probe_sym_ctx 0 t) = 0" "tag (probe_sym_ctx 0 t) = t" for t
    by (simp_all add: probe_sym_ctx_def)
  from sym_final_authentication [OF ce, of "Some (replicate 16 0xBB)" "replicate 16 0xBB"
         probe_cipher_api "[5]"] m0 bad
  obtain res' where b: "dcrypt_openssl_ctx_sym_final probe_cipher_api
       (probe_sym_ctx 0 (Some (replicate 16 0xBB))) [5]
     = Some (FALSE Data_authentication_failed,
             (probe_sym_ctx 0 (Some (replicate 16 0xBB)))\<lparr>ctx := None\<rparr>, res')"
    by auto
  have "map_option (\<lambda>r. snd (snd r)) (dcrypt_openssl_ctx_sym_final probe_cipher_api
       (probe_sym_ctx 0 (Some (replicate 16 0xBB))) [5]) = Some [5, 0]"
    by code_simp
  with b have 1: "dcrypt_openssl_ctx_sym_final probe_cipher_api
       (probe_sym_ctx 0 (Some (replicate 16 0xBB))) [5]
     = Some (FALSE Data_authentication_failed,
             (probe_sym_ctx 0 (Some (replicate 16 0xBB)))\<lparr>ctx := None\<rparr>, [5, 0])"
    by simp
  from sym_final_authentication [OF ce, of "Some (replicate 16 0xAA)" "replicate 16 0xAA"
         probe_cipher_api "[5]"] m0 good out
  have 2: "dcrypt_openssl_ctx_sym_final probe_cipher_api
       (probe_sym_ctx 0 (Some (replicate 16 0xAA))) [5]
     = Some (TRUE, (probe_sym_ctx 0 (Some (replicate 16 0xAA)))\<lparr>ctx := None\<rparr>,
             [5] @ replicate 32 1 @ replicate 12 2)"
    by auto
  have c1: "ctx (probe_sym_ctx 1 None) = Some (e\<lparr>p_enc := 1\<rparr>)"
    by (simp add: probe_sym_ctx_def e_def)
  have m1: "mode (probe_sym_ctx 1 None) = 1" "aad (probe_sym_ctx 1 None) \<noteq> None"
    "tag (probe_sym_ctx 1 None) = None"
    by (simp_all add: probe_sym_ctx_def)
  have tk1: "fst (EVP_CipherFinal_ex probe_cipher_api (e\<lparr>p_enc := 1\<rparr>)) = 1"
    "fst (EVP_CTRL_GCM_GET_TAG probe_cipher_api
            (snd (snd (EVP_CipherFinal_ex probe_cipher_api (e\<lparr>p_enc := 1\<rparr>)))) 16) = 1"
    "fst (snd (EVP_CipherFinal_ex probe_cipher_api (e\<lparr>p_enc := 1\<rparr>)))
       = replicate 32 1 @ replicate 12 2"
    "snd (EVP_CTRL_GCM_GET_TAG probe_cipher_api
            (snd (snd (EVP_CipherFinal_ex probe_cipher_api (e\<lparr>p_enc := 1\<rparr>)))) 16)
       = replicate 16 0xAA"
    unfolding e_def by (simp_all add: probe_cipher_api_def)
  note T = sym_final_authentication [OF c1, of "[]" probe_cipher_api "[5]" "[9]"]
  from T m1 tk1(1,2) obtain c' res' where
    fin: "dcrypt_openssl_ctx_sym_final probe_cipher_api (probe_sym_ctx 1 None) [5]
            = Some (TRUE, c', res')"
    by blast
  from T m1(1,2) fin
  have "res' = [5] @ fst (snd (EVP_CipherFinal_ex probe_cipher_api (e\<lparr>p_enc := 1\<rparr>)))"
    and "c' = (probe_sym_ctx 1 None)\<lparr>tag := Some (take 16
                 (snd (EVP_CTRL_GCM_GET_TAG probe_cipher_api
                    (snd (snd (EVP_CipherFinal_ex probe_cipher_api (e\<lparr>p_enc := 1\<rparr>)))) 16)
                  @ replicate 16 0)), ctx := None\<rparr>"
    and "dcrypt_openssl_ctx_sym_get_tag c' [9]
           = (True, [9] @ take 16
                (snd (EVP_CTRL_GCM_GET_TAG probe_cipher_api
                   (snd (snd (EVP_CipherFinal_ex probe_cipher_api (e\<lparr>p_enc := 1\<rparr>)))) 16)
                 @ replicate 16 0))"
    by blast+
  then have 3: "res' = [5] @ replicate 32 1 @ replicate 12 2
          \<and> tag c' = Some (replicate 16 0xAA)
          \<and> dcrypt_openssl_ctx_sym_get_tag c' [9] = (True, 9 # replicate 16 0xAA)"
    unfolding tk1 by simp
  show ?thesis
    apply (simp only: fin option.case prod.case ret.case)
    using 1 2 3 apply simp
    done
qed

section \<open>Properties of the key derivation\<close>

text \<open>
  C2 (the code differs). \<^verbatim>\<open>dcrypt_openssl_ctx_sym_get_key_length\<close> returns the cipher's IV
  length. For aes-256-ctr (key 32 bytes, IV 16) the KDF is asked for 16 + 16 = 32 bytes
  and not 48; the first 16 of them, followed by 16 zero bytes, are the key, and the next 16
  are the IV. The toolkit of the evaluation shows it: its PBKDF2 output counts 32, 33, ...,
  and its ciphertext is the data (here \<open>0x10, 0x11\<close>) followed by the key and the IV it
  was given.
\<close>

theorem cipher_key_v2_derives_iv_length_twice:
  "dcrypt_openssl_ctx_sym_get_key_length c = EVP_CIPHER_iv_length (cipher c)
   \<and> dcrypt_openssl_cipher_key_dovecot_v2 probe_cipher_api probe_digest_api ''aes-256-ctr''
       DCRYPT_MODE_ENCRYPT [0x10, 0x11] [1] [2] ''sha256'' 2048 []
     = Some (TRUE, [0x10, 0x11] @ map of_nat [32..<48] @ replicate 16 0 @ map of_nat [48..<64])"
proof
  show "dcrypt_openssl_ctx_sym_get_key_length c = EVP_CIPHER_iv_length (cipher c)"
    by (simp add: dcrypt_openssl_ctx_sym_get_key_length_def)
  show "dcrypt_openssl_cipher_key_dovecot_v2 probe_cipher_api probe_digest_api ''aes-256-ctr''
       DCRYPT_MODE_ENCRYPT [0x10, 0x11] [1] [2] ''sha256'' 2048 []
     = Some (TRUE, [0x10, 0x11] @ map of_nat [32..<48] @ replicate 16 0 @ map of_nat [48..<64])"
    by code_simp
qed

section \<open>Properties of key generation\<close>

lemma keypair_of_None: "keypair_of ossl None = None"
  by (simp add: keypair_of_def dcrypt_openssl_private_to_public_key_def)

text \<open>
  C3 (the code differs). \<^verbatim>\<open>dcrypt_openssl_generate_keypair\<close> never returns a keypair.
  Both generators return \<^verbatim>\<open>TRUE\<close> on success, and the caller tests \<^verbatim>\<open>== 0\<close>: when a key
  was generated the call returns \<^verbatim>\<open>FALSE\<close> with the toolkit's error, and when none was
  generated it hands the NULL key to \<^verbatim>\<open>dcrypt_openssl_private_to_public_key\<close>. Only the
  unknown curve name is answered as the claim says. Evaluated for the curve prime256v1,
  for RSA with 2048 bits and for an unknown curve name.
\<close>

theorem generate_keypair_never_succeeds:
  "dcrypt_openssl_generate_keypair ossl k bits curve \<noteq> Some (Inr pair)
   \<and> dcrypt_openssl_generate_keypair probe_openssl DCRYPT_KEY_EC 0 ''prime256v1''
       = Some (Inl OpenSSL_error)
   \<and> dcrypt_openssl_generate_keypair probe_openssl DCRYPT_KEY_RSA 2048 []
       = Some (Inl OpenSSL_error)
   \<and> dcrypt_openssl_generate_keypair probe_openssl DCRYPT_KEY_EC 0 ''nocurve''
       = Some (Inl (Unknown_EC_curve ''nocurve''))"
proof (intro conjI)
  show "dcrypt_openssl_generate_keypair ossl k bits curve \<noteq> Some (Inr pair)"
    by (cases k)
       (auto simp: dcrypt_openssl_generate_keypair_def dcrypt_openssl_generate_rsa_key_def
          dcrypt_openssl_generate_ec_key_def keypair_of_None Let_def
          split: option.splits)
  show "dcrypt_openssl_generate_keypair probe_openssl DCRYPT_KEY_EC 0 ''prime256v1''
       = Some (Inl OpenSSL_error)"
    by code_simp
  show "dcrypt_openssl_generate_keypair probe_openssl DCRYPT_KEY_RSA 2048 []
       = Some (Inl OpenSSL_error)"
    by code_simp
  show "dcrypt_openssl_generate_keypair probe_openssl DCRYPT_KEY_EC 0 ''nocurve''
       = Some (Inl (Unknown_EC_curve ''nocurve''))"
    by code_simp
qed

section \<open>Properties of the loaders\<close>

text \<open>
  C6 (the code differs). The key of a v1 password-encrypted record is derived with the
  digest named "sha256" (16 rounds, 32 bytes, over the hex-decoded password and salt), and
  not with SHA-1 as the file's own format notes say. The second part evaluates the call on
  the toolkit of the evaluations, whose PBKDF2 output starts at the digest's size: the key
  bytes are 32, 33, ... (they would start at 20 for SHA-1), after the data byte \<open>0xab\<close> and
  before the sixteen zero bytes of the IV.
\<close>

theorem decrypt_point_password_v1_uses_sha256:
  "dcrypt_openssl_decrypt_point_password_v1 ossl data_hex (Some pw) salt_hex
     = (case dcrypt_openssl_pbkdf2 (digests ossl) (snd (hex_to_binary pw))
               (snd (hex_to_binary salt_hex)) ''sha256'' 16 [] 32 of
          Some (TRUE, k) \<Rightarrow> dcrypt_openssl_decrypt_point_v1 ossl (snd (hex_to_binary data_hex)) k
        | _ \<Rightarrow> None)
   \<and> dcrypt_openssl_decrypt_point_password_v1 probe_openssl ''ab'' (Some ''00'') ''00''
     = Some (Inr (be_int ([0xab] @ map of_nat [32..<64] @ replicate 16 0)))"
proof
  show "dcrypt_openssl_decrypt_point_password_v1 ossl data_hex (Some pw) salt_hex
     = (case dcrypt_openssl_pbkdf2 (digests ossl) (snd (hex_to_binary pw))
               (snd (hex_to_binary salt_hex)) ''sha256'' 16 [] 32 of
          Some (TRUE, k) \<Rightarrow> dcrypt_openssl_decrypt_point_v1 ossl (snd (hex_to_binary data_hex)) k
        | _ \<Rightarrow> None)"
    by (simp add: dcrypt_openssl_decrypt_point_password_v1_def
          split: option.splits prod.splits ret.splits)
  show "dcrypt_openssl_decrypt_point_password_v1 probe_openssl ''ab'' (Some ''00'') ''00''
     = Some (Inr (be_int ([0xab] @ map of_nat [32..<64] @ replicate 16 0)))"
    by code_simp
qed

lemma private_to_public_key_pkeys:
  "dcrypt_openssl_private_to_public_key (ossl\<lparr>pkeys := x\<rparr>) k
     = dcrypt_openssl_private_to_public_key ossl k"
  by (auto simp: dcrypt_openssl_private_to_public_key_def split: option.splits EVP_PKEY.splits)

lemma public_key_id_pkeys:
  "dcrypt_openssl_public_key_id
     (ossl\<lparr>pkeys := (pkeys ossl)\<lparr>EVP_PKEY_decrypt := f, EVP_PKEY_derive := g\<rparr>\<rparr>) k a b
     = dcrypt_openssl_public_key_id ossl k a b"
  by (auto simp: dcrypt_openssl_public_key_id_def Let_def split: option.splits)

lemma v2_check_dec_key_mismatch:
  assumes "dcrypt_openssl_private_to_public_key ossl (Some dec_key) = Some (Inr pubkey)"
      and "dcrypt_openssl_public_key_id ossl (Some pubkey) ''sha256'' [] = Some (TRUE, kid)"
      and "binary_to_hex kid \<noteq> enc_key_id"
  shows "v2_check_dec_key ossl (Some dec_key) enc_key_id = Some (Inl No_private_key_available)"
  using assms by (simp add: v2_check_dec_key_def)

lemma load_v2_wrong_key:
  assumes "t_strsplit_tab data = input" and "length input = 11"
      and "take 1 (input ! 0) = ''2''"
      and "str_to_int (input ! 2) = Some 1"
      and "OBJ_txt2nid (objs ossl) (input ! 1) \<noteq> NID_undef"
      and "str_to_uint (input ! 6) = Some rounds"
      and "v2_check_dec_key ossl (Some dec_key) (input ! 9) = Some (Inl No_private_key_available)"
  shows "dcrypt_openssl_load_private_key_dovecot ossl data password (Some dec_key)
           = Some (Inl No_private_key_available)"
  using assms
  by (simp add: dcrypt_openssl_load_private_key_dovecot_def
        dcrypt_openssl_load_private_key_dovecot_v2_def v2_key_data_def Let_def
        DCRYPT_DOVECOT_KEY_ENCRYPT_NONE_def DCRYPT_DOVECOT_KEY_ENCRYPT_PK_def
        DCRYPT_DOVECOT_KEY_ENCRYPT_PASSWORD_def)

text \<open>
  C7. A v2 record of eleven fields with encryption type 1, a known algorithm and a decimal
  number of rounds is loaded with a decryption key whose public side and SHA-256 identifier
  the toolkit can make. When the hex text of that identifier differs from field 9 of the
  record, the load fails with "No private key available"; and it does so whatever the
  toolkit's RSA decryption and ECDH derivation are, which are not reached. (Hex text is
  one-to-one, \<open>binary_to_hex_inject\<close> below: for a field that is the hex text of an
  identifier, the texts differ exactly when the bytes do, \<open>v2_check_dec_key_bytes\<close>.)
\<close>

theorem v2_wrong_decryption_key:
  assumes fields: "t_strsplit_tab data = input" "length input = 11" "take 1 (input ! 0) = ''2''"
      and enctype: "str_to_int (input ! 2) = Some 1"
      and oid: "OBJ_txt2nid (objs ossl) (input ! 1) \<noteq> NID_undef"
      and rounds: "str_to_uint (input ! 6) = Some rounds"
      and pub: "dcrypt_openssl_private_to_public_key ossl (Some dec_key) = Some (Inr pubkey)"
      and kid: "dcrypt_openssl_public_key_id ossl (Some pubkey) ''sha256'' [] = Some (TRUE, kid)"
      and mismatch: "binary_to_hex kid \<noteq> input ! 9"
  shows "dcrypt_openssl_load_private_key_dovecot ossl data password (Some dec_key)
           = Some (Inl No_private_key_available)
       \<and> dcrypt_openssl_load_private_key_dovecot
           (ossl\<lparr>pkeys := (pkeys ossl)\<lparr>EVP_PKEY_decrypt := f, EVP_PKEY_derive := g\<rparr>\<rparr>)
           data password (Some dec_key)
           = Some (Inl No_private_key_available)"
proof
  from v2_check_dec_key_mismatch [OF pub kid mismatch]
  show "dcrypt_openssl_load_private_key_dovecot ossl data password (Some dec_key)
           = Some (Inl No_private_key_available)"
    by (rule load_v2_wrong_key [OF fields enctype oid rounds])
next
  let ?o = "ossl\<lparr>pkeys := (pkeys ossl)\<lparr>EVP_PKEY_decrypt := f, EVP_PKEY_derive := g\<rparr>\<rparr>"
  have pub': "dcrypt_openssl_private_to_public_key ?o (Some dec_key) = Some (Inr pubkey)"
    using pub by (simp add: private_to_public_key_pkeys)
  have kid': "dcrypt_openssl_public_key_id ?o (Some pubkey) ''sha256'' [] = Some (TRUE, kid)"
    using kid by (simp add: public_key_id_pkeys)
  have oid': "OBJ_txt2nid (objs ?o) (input ! 1) \<noteq> NID_undef"
    using oid by simp
  from v2_check_dec_key_mismatch [OF pub' kid' mismatch]
  show "dcrypt_openssl_load_private_key_dovecot ?o data password (Some dec_key)
           = Some (Inl No_private_key_available)"
    by (rule load_v2_wrong_key [OF fields enctype oid' rounds])
qed

theorem v2_wrong_decryption_key_witness:
  "dcrypt_openssl_load_private_key_dovecot probe_openssl probe_wrapped_record None
     (Some (PKEY_RSA 8))
   = Some (Inl No_private_key_available)"
proof -
  define input where "input = t_strsplit_tab probe_wrapped_record"
  have f: "t_strsplit_tab probe_wrapped_record = input" by (simp add: input_def)
  have l: "length input = 11" unfolding input_def by code_simp
  have v: "take 1 (input ! 0) = ''2''" unfolding input_def by code_simp
  have e: "str_to_int (input ! 2) = Some 1" unfolding input_def by code_simp
  have n: "OBJ_txt2nid (objs probe_openssl) (input ! 1) \<noteq> NID_undef"
    unfolding input_def by code_simp
  have r: "str_to_uint (input ! 6) = Some 2048" unfolding input_def by code_simp
  have p: "dcrypt_openssl_private_to_public_key probe_openssl (Some (PKEY_RSA 8))
             = Some (Inr (PKEY_RSA 8))"
    by code_simp
  have k: "dcrypt_openssl_public_key_id probe_openssl (Some (PKEY_RSA 8)) ''sha256'' []
             = Some (TRUE, [0x30, 1, 8] @ replicate 29 0)"
    by code_simp
  have m: "binary_to_hex ([0x30, 1, 8] @ replicate 29 0) \<noteq> input ! 9"
    unfolding input_def by code_simp
  from v2_wrong_decryption_key [OF f l v e n r p k m] show ?thesis by simp
qed

section \<open>Properties of the writer\<close>

lemma buffer_set_used_size_append:
  "buffer_set_used_size (d @ x) (length d) = d"
  by (simp add: buffer_set_used_size_def)

lemma encrypt_private_key_appends:
  assumes "dcrypt_openssl_encrypt_private_key_dovecot ossl enc_hash enc_rounds rnd key_p enctype
             cipher_name password enc_key destination = Some (r, d')"
  shows "\<exists>x. d' = destination @ x"
  using assms unfolding dcrypt_openssl_encrypt_private_key_dovecot_def Let_def
  by (auto split: option.splits sum.splits prod.splits ret.splits if_splits)

text \<open>
  C8. When storing a private key in the v2 format returns \<^verbatim>\<open>FALSE\<close>, the destination
  buffer is what it was before the call, for every key, cipher string, password and
  encryption key (and every toolkit, random source and pair of KDF constants, whatever
  the unassigned pointer of the RSA branch holds, and whether or not \<^verbatim>\<open>*error_r\<close> held a
  message on entry).
\<close>

theorem store_failure_restores_destination:
  assumes "dcrypt_openssl_store_private_key_dovecot ossl enc_hash enc_rounds rnd ptr_null
             error_set key_p cipher_name destination password enc_key = Some (FALSE e, dest')"
  shows "dest' = destination"
  using assms unfolding dcrypt_openssl_store_private_key_dovecot_def Let_def
  by (auto simp: buffer_set_used_size_append
        dest!: encrypt_private_key_appends
        split: option.splits sum.splits prod.splits ret.splits if_splits)

theorem store_failure_restores_destination_witness:
  "dcrypt_openssl_store_private_key_dovecot probe_openssl ''sha256'' 2048 probe_random
     True False probe_ec_key (Some ''nocipher'') ''earlier text'' (Some ''pw'') None
   = Some (FALSE (Invalid_cipher ''nocipher''), ''earlier text'')"
proof -
  have "map_option fst (dcrypt_openssl_store_private_key_dovecot probe_openssl ''sha256'' 2048
     probe_random True False probe_ec_key (Some ''nocipher'') ''earlier text'' (Some ''pw'') None)
   = Some (FALSE (Invalid_cipher ''nocipher''))"
    by code_simp
  then obtain d where d: "dcrypt_openssl_store_private_key_dovecot probe_openssl ''sha256'' 2048
     probe_random True False probe_ec_key (Some ''nocipher'') ''earlier text'' (Some ''pw'') None
   = Some (FALSE (Invalid_cipher ''nocipher''), d)"
    by (cases "dcrypt_openssl_store_private_key_dovecot probe_openssl ''sha256'' 2048
     probe_random True False probe_ec_key (Some ''nocipher'') ''earlier text'' (Some ''pw'') None") auto
  from store_failure_restores_destination [OF d] d show ?thesis by simp
qed

section \<open>Properties of the round trip\<close>

lemma hi_nibble: "unat (drop_bit 4 (b::byte)) = unat b div 16"
proof -
  have "unat (drop_bit 4 b) = drop_bit 4 (unat b)" by (rule unat_drop_bit_eq)
  also have "\<dots> = unat b div 2 ^ 4" by (rule drop_bit_eq_div)
  finally show ?thesis by simp
qed

lemma lo_nibble: "unat ((b::byte) AND 0x0f) = unat b mod 16"
proof -
  have "(0x0f::byte) = mask 4" by (simp add: mask_eq_exp_minus_1)
  then have "b AND 0x0f = take_bit 4 b" by (simp add: take_bit_eq_mask)
  then have "unat (b AND 0x0f) = take_bit 4 (unat b)" by (simp add: unsigned_take_bit_eq)
  then show ?thesis by (simp add: take_bit_eq_mod)
qed

lemma byte_of_nibbles: "of_nat (unat (drop_bit 4 b) * 16 + unat (b AND 0x0f)) = (b::byte)"
proof -
  have "unat (drop_bit 4 b) * 16 + unat (b AND 0x0f) = unat b"
    by (simp add: hi_nibble lo_nibble)
  then have "of_nat (unat (drop_bit 4 b) * 16 + unat (b AND 0x0f)) = (of_nat (unat b) :: byte)"
    by (rule arg_cong)
  then show ?thesis by simp
qed

lemma byte_of_nibbles': "drop_bit 4 b * 16 + (b AND 15) = (b::byte)"
  using byte_of_nibbles [of b] by simp

lemma of_char_hex_digit:
  "v < 16 \<Longrightarrow> (of_char (hex_digit v) :: nat) = (if v < 10 then v + 48 else v + 87)"
  by (auto simp: hex_digit_def)

lemma hex_value_hex_digit: "v < 16 \<Longrightarrow> hex_value (hex_digit v) = Some v"
  by (auto simp: hex_value_def of_char_hex_digit Let_def)

lemma hex_digit_not_TAB: "v < 16 \<Longrightarrow> hex_digit v \<noteq> TAB"
proof
  assume v: "v < 16" and "hex_digit v = TAB"
  then have "(of_char (hex_digit v) :: nat) = of_char TAB" by simp
  with v show False by (simp add: of_char_hex_digit TAB_def split: if_splits)
qed

lemma nibble_bounds: "unat (drop_bit 4 (b::byte)) < 16" "unat ((b::byte) AND 0x0f) < 16"
proof -
  have "unat b < 256" using unsigned_less [of b] by simp
  then show "unat (drop_bit 4 b) < 16" by (simp add: hi_nibble)
  show "unat (b AND 0x0f) < 16" by (simp add: lo_nibble)
qed

lemma hex_to_binary_binary_to_hex: "hex_to_binary (binary_to_hex bs) = (0, bs)"
  by (induction bs) (simp_all add: hex_value_hex_digit nibble_bounds byte_of_nibbles')

lemma TAB_notin_binary_to_hex: "TAB \<notin> set (binary_to_hex bs)"
  by (induction bs) (auto simp: hex_digit_not_TAB [OF nibble_bounds(1), symmetric]
        hex_digit_not_TAB [OF nibble_bounds(2), symmetric])

lemma binary_to_hex_inject:
  assumes "binary_to_hex a = binary_to_hex b"
  shows "a = b"
proof -
  from assms have "hex_to_binary (binary_to_hex a) = hex_to_binary (binary_to_hex b)"
    by (rule arg_cong)
  then show ?thesis by (simp only: hex_to_binary_binary_to_hex prod.inject)
qed

lemma v2_check_dec_key_bytes:
  assumes "dcrypt_openssl_private_to_public_key ossl (Some dec_key) = Some (Inr pubkey)"
      and "dcrypt_openssl_public_key_id ossl (Some pubkey) ''sha256'' [] = Some (TRUE, kid)"
  shows "v2_check_dec_key ossl (Some dec_key) (binary_to_hex field)
           = (if kid = field then Some (Inr ()) else Some (Inl No_private_key_available))"
  using assms by (auto simp: v2_check_dec_key_def dest: binary_to_hex_inject)

lemma split_at_no_sep: "c \<notin> set xs \<Longrightarrow> split_at c xs = [xs]"
  by (induction xs) auto

lemma split_at_append:
  "c \<notin> set xs \<Longrightarrow> split_at c (xs @ c # ys) = xs # split_at c ys"
  by (induction xs) auto

lemma t_strsplit_tab_five:
  assumes "TAB \<notin> set a" "TAB \<notin> set b" "TAB \<notin> set c" "TAB \<notin> set d" "TAB \<notin> set e"
  shows "t_strsplit_tab (a @ [TAB] @ b @ [TAB] @ c @ [TAB] @ d @ [TAB] @ e) = [a, b, c, d, e]"
  using assms by (simp add: t_strsplit_tab_def split_at_append split_at_no_sep)

lemma printf_d_0: "printf_d 0 = ''0''"
  by code_simp

lemma str_to_int_0: "str_to_int ''0'' = Some 0"
  by (simp add: str_to_int_def digit_value_def)

lemma store_plain:
  assumes "key_algorithm_nid ossl k = Some nid"
      and "OBJ_nid2txt (objs ossl) nid = txt" and "txt \<noteq> []" and "length txt < 80"
      and "private_key_value ossl ptr_null error_set k = Some (Inr buf)"
      and "dcrypt_openssl_private_to_public_key ossl (Some k) = Some (Inr pubkey)"
      and "dcrypt_openssl_public_key_id ossl (Some pubkey) ''sha256'' [] = Some (TRUE, kid)"
  shows "dcrypt_openssl_store_private_key_dovecot ossl enc_hash enc_rounds rnd ptr_null
           error_set k None [] None None
         = Some (TRUE, ''2'' @ [TAB] @ txt @ [TAB] @ ''0'' @ [TAB] @ binary_to_hex buf
                       @ [TAB] @ binary_to_hex kid)"
proof -
  from assms(3) have "\<not> length txt < 1" by (cases "txt") auto
  moreover from assms(4) have "\<not> length txt > 80" "take 79 txt = txt" by auto
  ultimately show ?thesis
    using assms(1,2,5,6,7)
    by (simp add: dcrypt_openssl_store_private_key_dovecot_def Let_def printf_d_0)
qed

lemma load_plain:
  assumes "OBJ_txt2nid (objs ossl) txt = nid" and "nid \<noteq> NID_undef" and "TAB \<notin> set txt"
      and "v2_decode_key ossl nid buf = Inr k'"
      and "v2_key_id_hex ossl k' = Some (binary_to_hex kid)"
  shows "dcrypt_openssl_load_private_key_dovecot ossl
           (''2'' @ [TAB] @ txt @ [TAB] @ ''0'' @ [TAB] @ binary_to_hex buf
                  @ [TAB] @ binary_to_hex kid) None None
         = Some (Inr k')"
proof -
  have t: "TAB \<notin> set ''2''" "TAB \<notin> set ''0''" by (simp_all add: TAB_def)
  note sp = t_strsplit_tab_five [OF t(1) assms(3) t(2) TAB_notin_binary_to_hex
              TAB_notin_binary_to_hex, of buf kid]
  show ?thesis
    unfolding dcrypt_openssl_load_private_key_dovecot_def sp Let_def
    using assms(1,2,4,5)
    by (simp add: dcrypt_openssl_load_private_key_dovecot_v2_def v2_key_data_def Let_def
          str_to_int_0 hex_to_binary_binary_to_hex DCRYPT_DOVECOT_KEY_ENCRYPT_NONE_def
          DCRYPT_DOVECOT_KEY_ENCRYPT_PASSWORD_def DCRYPT_DOVECOT_KEY_ENCRYPT_PK_def)
qed

lemma v2_key_id_hex_of_id:
  "v2_key_id ossl k = Some kid \<Longrightarrow> v2_key_id_hex ossl k = Some (binary_to_hex kid)"
  by (auto simp: v2_key_id_def v2_key_id_hex_def
        split: option.splits sum.splits prod.splits ret.splits)

lemma public_key_id_total:
  assumes "EVP_get_digestbyname (digests ossl) ''sha256'' \<noteq> None"
      and "i2d_PUBKEY (pkeys ossl)
             (if EVP_PKEY_base_id (objs ossl) p = EVP_PKEY_EC then set_conv_form_compressed p
              else p) \<noteq> None"
  shows "\<exists>kid. dcrypt_openssl_public_key_id ossl (Some p) ''sha256'' [] = Some (TRUE, kid)"
  using assms
  by (auto simp: dcrypt_openssl_public_key_id_def Let_def split: option.splits)

lemma assign_private_key_snd:
  "snd (assign_private_key ossl nid d)
     = \<lparr>curve_name = nid, private_key = Some d,
        public_key = Some (snd (EC_POINT_mul (ecs ossl) nid d)),
        conv_form = POINT_CONVERSION_COMPRESSED, asn1_flag = OPENSSL_EC_NAMED_CURVE\<rparr>"
  by (simp add: assign_private_key_def split: prod.splits)

lemma public_key_id_ec:
  assumes "EVP_PKEY_type (objs ossl) EVP_PKEY_EC = EVP_PKEY_EC"
  shows "dcrypt_openssl_public_key_id ossl (Some (PKEY_EC x)) a b
           = dcrypt_openssl_public_key_id ossl
               (Some (PKEY_EC (x\<lparr>conv_form := POINT_CONVERSION_COMPRESSED\<rparr>))) a b"
  using assms
  by (auto simp: dcrypt_openssl_public_key_id_def Let_def EVP_PKEY_base_id_def
        set_conv_form_compressed_def split: option.splits)

lemma roundtrip_rsa:
  assumes laws: "v2_codec_laws ossl (PKEY_RSA rsa)"
  shows "\<exists>s kid. dcrypt_openssl_store_private_key_dovecot ossl enc_hash enc_rounds rnd True
                    error_set (PKEY_RSA rsa) None [] None None = Some (TRUE, s)
           \<and> dcrypt_openssl_load_private_key_dovecot ossl s None None = Some (Inr (PKEY_RSA rsa))
           \<and> v2_key_id ossl (PKEY_RSA rsa) = Some kid"
proof -
  let ?k = "PKEY_RSA rsa :: ('b, 'c) EVP_PKEY"
  let ?txt = "OBJ_nid2txt (objs ossl) EVP_PKEY_RSA"
  from laws have ty: "EVP_PKEY_type (objs ossl) EVP_PKEY_RSA = EVP_PKEY_RSA"
    and sha: "EVP_get_digestbyname (digests ossl) ''sha256'' \<noteq> None"
    and oid: "oid_roundtrip (objs ossl) EVP_PKEY_RSA"
    and chk: "RSA_check_key (rsas ossl) rsa = 1"
    and spki: "i2d_PUBKEY (pkeys ossl) (PKEY_RSA (RSAPublicKey_dup (rsas ossl) rsa)) \<noteq> None"
    by (simp_all add: v2_codec_laws_def)
  from laws obtain der where der: "i2d_RSAPrivateKey (rsas ossl) rsa = Some der"
    and undo: "d2i_RSAPrivateKey (rsas ossl) der = Some rsa"
    by (auto simp: v2_codec_laws_def split: option.splits)
  have ne: "EVP_PKEY_RSA \<noteq> EVP_PKEY_EC" by (simp add: EVP_PKEY_RSA_def EVP_PKEY_EC_def)
  have bid: "EVP_PKEY_base_id (objs ossl) ?k = EVP_PKEY_RSA"
    by (simp add: EVP_PKEY_base_id_def ty)
  have bid': "EVP_PKEY_base_id (objs ossl) (PKEY_RSA (RSAPublicKey_dup (rsas ossl) rsa))
                = EVP_PKEY_RSA"
    by (simp add: EVP_PKEY_base_id_def ty)
  have nid: "key_algorithm_nid ossl ?k = Some EVP_PKEY_RSA"
    by (simp add: key_algorithm_nid_def bid ne)
  have val: "private_key_value ossl True error_set ?k = Some (Inr der)"
    by (simp add: private_key_value_def bid der)
  have pub: "dcrypt_openssl_private_to_public_key ossl (Some ?k)
               = Some (Inr (PKEY_RSA (RSAPublicKey_dup (rsas ossl) rsa)))"
    by (simp add: dcrypt_openssl_private_to_public_key_def bid)
  from public_key_id_total [OF sha, of "PKEY_RSA (RSAPublicKey_dup (rsas ossl) rsa)"] spki
  obtain kid where kid: "dcrypt_openssl_public_key_id ossl
        (Some (PKEY_RSA (RSAPublicKey_dup (rsas ossl) rsa))) ''sha256'' [] = Some (TRUE, kid)"
    by (auto simp: bid' ne)
  from oid have tx: "?txt \<noteq> []" "length ?txt < 80" "TAB \<notin> set ?txt"
    and rd: "OBJ_txt2nid (objs ossl) ?txt = EVP_PKEY_RSA" and un: "EVP_PKEY_RSA \<noteq> NID_undef"
    by (simp_all add: oid_roundtrip_def)
  have id: "v2_key_id ossl ?k = Some kid"
    by (simp add: v2_key_id_def pub kid)
  have dec: "v2_decode_key ossl EVP_PKEY_RSA der = Inr ?k"
    by (simp add: v2_decode_key_def ty undo chk)
  note st = store_plain [OF nid refl tx(1,2) val pub kid, of enc_hash enc_rounds rnd]
  note ld = load_plain [OF rd un tx(3) dec v2_key_id_hex_of_id [OF id]]
  from st ld id show ?thesis by blast
qed

lemma roundtrip_ec:
  assumes laws: "v2_codec_laws ossl (PKEY_EC eckey)"
  shows "\<exists>s k' kid. dcrypt_openssl_store_private_key_dovecot ossl enc_hash enc_rounds rnd
                    ptr_null error_set (PKEY_EC eckey) None [] None None = Some (TRUE, s)
           \<and> dcrypt_openssl_load_private_key_dovecot ossl s None None = Some (Inr k')
           \<and> v2_key_id ossl (PKEY_EC eckey) = Some kid \<and> v2_key_id ossl k' = Some kid"
proof -
  let ?k = "PKEY_EC eckey :: ('b, 'c) EVP_PKEY"
  let ?nid = "curve_name eckey"
  let ?txt = "OBJ_nid2txt (objs ossl) ?nid"
  from laws have ty: "EVP_PKEY_type (objs ossl) EVP_PKEY_EC = EVP_PKEY_EC"
    and sha: "EVP_get_digestbyname (digests ossl) ''sha256'' \<noteq> None"
    and oid: "oid_roundtrip (objs ossl) ?nid"
    and norsa: "EVP_PKEY_type (objs ossl) ?nid \<noteq> EVP_PKEY_RSA"
    and curve: "EC_KEY_new_by_curve_name (ecs ossl) ?nid"
    by (simp_all add: v2_codec_laws_def)
  from laws obtain d where d: "private_key eckey = Some d"
    and mpi: "BN_mpi2bn (bns ossl) (BN_bn2mpi (bns ossl) d) = Some d"
    and ec: "fst (assign_private_key ossl ?nid d) = 1"
    and pt: "public_key eckey = public_key (snd (assign_private_key ossl ?nid d))"
    and chk: "EC_KEY_check_key (ecs ossl) (snd (assign_private_key ossl ?nid d)) = 1"
    and spki: "i2d_PUBKEY (pkeys ossl) (PKEY_EC (snd (assign_private_key ossl ?nid d))) \<noteq> None"
    by (auto simp: v2_codec_laws_def split: option.splits)
  define lk where "lk = snd (assign_private_key ossl ?nid d)"
  have lk: "lk = \<lparr>curve_name = ?nid, private_key = Some d,
        public_key = Some (snd (EC_POINT_mul (ecs ossl) ?nid d)),
        conv_form = POINT_CONVERSION_COMPRESSED, asn1_flag = OPENSSL_EC_NAMED_CURVE\<rparr>"
    by (simp add: lk_def assign_private_key_snd)
  have forced: "eckey\<lparr>asn1_flag := OPENSSL_EC_NAMED_CURVE,
                       conv_form := POINT_CONVERSION_COMPRESSED\<rparr> = lk"
    using d pt by (simp add: lk assign_private_key_snd)
  have forced': "lk\<lparr>asn1_flag := OPENSSL_EC_NAMED_CURVE\<rparr> = lk"
    "lk\<lparr>conv_form := POINT_CONVERSION_COMPRESSED\<rparr> = lk"
    by (simp_all add: lk)
  have ne: "EVP_PKEY_EC \<noteq> EVP_PKEY_RSA" by (simp add: EVP_PKEY_RSA_def EVP_PKEY_EC_def)
  have bid: "EVP_PKEY_base_id (objs ossl) (PKEY_EC x) = EVP_PKEY_EC" for x :: "'c EC_KEY"
    by (simp add: EVP_PKEY_base_id_def ty)
  have nid: "key_algorithm_nid ossl ?k = Some ?nid"
    by (simp add: key_algorithm_nid_def bid)
  have val: "private_key_value ossl ptr_null error_set ?k
               = Some (Inr (BN_bn2mpi (bns ossl) d))"
    by (simp add: private_key_value_def bid ne d)
  have pub: "dcrypt_openssl_private_to_public_key ossl (Some (PKEY_EC x))
               = Some (Inr (PKEY_EC (x\<lparr>asn1_flag := OPENSSL_EC_NAMED_CURVE\<rparr>)))"
    for x :: "'c EC_KEY"
    by (simp add: dcrypt_openssl_private_to_public_key_def bid ne)
  have "i2d_PUBKEY (pkeys ossl)
          (if EVP_PKEY_base_id (objs ossl) (PKEY_EC (eckey\<lparr>asn1_flag := OPENSSL_EC_NAMED_CURVE\<rparr>))
                = EVP_PKEY_EC
           then set_conv_form_compressed (PKEY_EC (eckey\<lparr>asn1_flag := OPENSSL_EC_NAMED_CURVE\<rparr>))
           else PKEY_EC (eckey\<lparr>asn1_flag := OPENSSL_EC_NAMED_CURVE\<rparr>)) \<noteq> None"
    using spki by (simp add: bid set_conv_form_compressed_def forced lk_def)
  from public_key_id_total [OF sha this]
  obtain kid where kid: "dcrypt_openssl_public_key_id ossl
        (Some (PKEY_EC (eckey\<lparr>asn1_flag := OPENSSL_EC_NAMED_CURVE\<rparr>))) ''sha256'' []
        = Some (TRUE, kid)"
    by auto
  have "dcrypt_openssl_public_key_id ossl
          (Some (PKEY_EC (eckey\<lparr>asn1_flag := OPENSSL_EC_NAMED_CURVE\<rparr>))) ''sha256'' []
        = dcrypt_openssl_public_key_id ossl
          (Some (PKEY_EC (eckey\<lparr>asn1_flag := OPENSSL_EC_NAMED_CURVE,
                                conv_form := POINT_CONVERSION_COMPRESSED\<rparr>))) ''sha256'' []"
    by (rule public_key_id_ec [OF ty])
  also have "\<dots> = dcrypt_openssl_public_key_id ossl (Some (PKEY_EC lk)) ''sha256'' []"
    by (simp only: forced)
  finally have same: "dcrypt_openssl_public_key_id ossl (Some (PKEY_EC lk)) ''sha256'' []
                = dcrypt_openssl_public_key_id ossl
                    (Some (PKEY_EC (eckey\<lparr>asn1_flag := OPENSSL_EC_NAMED_CURVE\<rparr>))) ''sha256'' []"
    by (rule sym)
  from oid have tx: "?txt \<noteq> []" "length ?txt < 80" "TAB \<notin> set ?txt"
    and rd: "OBJ_txt2nid (objs ossl) ?txt = ?nid" and un: "?nid \<noteq> NID_undef"
    by (simp_all add: oid_roundtrip_def)
  have id: "v2_key_id ossl ?k = Some kid"
    by (simp add: v2_key_id_def pub kid)
  have id': "v2_key_id ossl (PKEY_EC lk) = Some kid"
    by (simp add: v2_key_id_def pub forced' same kid)
  have dec: "v2_decode_key ossl ?nid (BN_bn2mpi (bns ossl) d) = Inr (PKEY_EC lk)"
    using norsa mpi curve ec chk
    by (auto simp: v2_decode_key_def lk_def split: prod.splits)
  note st = store_plain [OF nid refl tx(1,2) val pub kid, of enc_hash enc_rounds rnd]
  note ld = load_plain [OF rd un tx(3) dec v2_key_id_hex_of_id [OF id']]
  from st ld id id' show ?thesis by blast
qed

lemma roundtrip_probe:
  "v2_codec_laws probe_openssl probe_ec_key \<and> v2_codec_laws probe_openssl (PKEY_RSA 9)"
  by code_simp

text \<open>
  C1 (the code differs). For an EC key the round trip holds (\<open>roundtrip_ec\<close>: for every
  toolkit that keeps its side, \<open>v2_codec_laws\<close>, storing without encryption into an empty
  buffer and loading the text gives a key of the same v2 identifier). For an RSA key the
  writer reads the local pointer \<^verbatim>\<open>ptr\<close> before anything is assigned to it: the round
  trip holds if the variable happens to hold NULL (\<open>roundtrip_rsa\<close>), and otherwise the
  store has no defined result. Evaluated for the RSA key 9 of the toolkit of the
  evaluations, with a pointer that is not NULL and with one that is, whether or not
  \<^verbatim>\<open>*error_r\<close> held a message on entry.
\<close>

theorem store_rsa_reads_unassigned_pointer:
  "dcrypt_openssl_store_private_key_dovecot probe_openssl ''sha256'' 2048 probe_random False
     error_set (PKEY_RSA 9) None [] None None = None
   \<and> map_option fst
       (dcrypt_openssl_store_private_key_dovecot probe_openssl ''sha256'' 2048 probe_random True
          error_set (PKEY_RSA 9) None [] None None) = Some TRUE"
proof -
  have "\<forall>b. dcrypt_openssl_store_private_key_dovecot probe_openssl ''sha256'' 2048
              probe_random False b (PKEY_RSA 9) None [] None None = None
           \<and> map_option fst
               (dcrypt_openssl_store_private_key_dovecot probe_openssl ''sha256'' 2048
                  probe_random True b (PKEY_RSA 9) None [] None None) = Some TRUE"
    by code_simp
  then show ?thesis by blast
qed

end
